theory Spec2Isabelle
  imports Complex_Main "HOL-Library.AList"
begin

section \<open>Data model\<close>

text \<open>
  The two synthesizers of the repository, \<^verbatim>\<open>midi_poly_synth.py\<close> (classes
  \<^verbatim>\<open>PolyphonicVoice\<close> and \<^verbatim>\<open>FourPotMIDISynth\<close>) and \<^verbatim>\<open>mpk_only_synth.py\<close> (classes
  \<^verbatim>\<open>MPKVoice\<close> and \<^verbatim>\<open>MPKOnlySynth\<close>), are embedded as functions on explicit state.
  Python floats and the float32 arrays of NumPy are modelled as real numbers (no
  rounding), Python ints as \<open>int\<close>, a block length as \<open>nat\<close>. An exception is a value
  of \<open>py_error\<close>; a method that can raise returns a sum with the error on the left.
\<close>

datatype py_error = ZeroDivisionError | ValueError

text \<open>The five values the attribute \<^verbatim>\<open>envelope_phase\<close> takes.\<close>

datatype env_phase = Attack | Decay | Sustain | Release | Finished

text \<open>
  The dictionary built by \<^verbatim>\<open>get_envelope_params\<close> and \<^verbatim>\<open>get_synth_params\<close>: always the
  four keys \<^verbatim>\<open>'attack'\<close>, \<^verbatim>\<open>'decay'\<close>, \<^verbatim>\<open>'sustain'\<close>, \<^verbatim>\<open>'release'\<close>.
\<close>

record envelope_params =
  env_attack :: real
  env_decay :: real
  env_sustain :: real
  env_release :: real

text \<open>
  The attributes of a voice object. \<^verbatim>\<open>PolyphonicVoice.__init__\<close> and
  \<^verbatim>\<open>MPKVoice.__init__\<close> declare the same attributes, so one record serves both.
\<close>

record voice =
  note_number :: int  \<comment> \<open>the attribute \<^verbatim>\<open>note\<close>\<close>
  velocity :: real
  frequency :: real
  phase :: real
  sample_rate :: int
  attack_time :: real
  decay_time :: real
  sustain_level :: real
  release_time :: real
  envelope_phase :: env_phase
  envelope_value :: real
  envelope_timer :: real
  releasing :: bool
  filter_state :: real

section \<open>Float operations of Python and NumPy on reals\<close>

text \<open>\<^verbatim>\<open>x % y\<close> on floats: the result has the sign of the divisor.\<close>

definition py_fmod :: "real \<Rightarrow> real \<Rightarrow> real" where
  "py_fmod x y = x - y * of_int \<lfloor>x / y\<rfloor>"

section \<open>PolyphonicVoice (midi\_poly\_synth.py)\<close>

definition PolyphonicVoice_init :: "int \<Rightarrow> int \<Rightarrow> int \<Rightarrow> envelope_params \<Rightarrow> voice" where
  "PolyphonicVoice_init note vel sr envelope_params =
     \<lparr> note_number = note,
       velocity = real_of_int vel / 127,
       frequency = 440 * (2 powr (real_of_int (note - 69) / 12)),
       phase = 0,
       sample_rate = sr,
       attack_time = env_attack envelope_params,
       decay_time = env_decay envelope_params,
       sustain_level = env_sustain envelope_params,
       release_time = env_release envelope_params,
       envelope_phase = Attack,
       envelope_value = 0,
       envelope_timer = 0,
       releasing = False,
       filter_state = 0 \<rparr>"

definition release :: "voice \<Rightarrow> voice" where
  "release self = self\<lparr>releasing := True, envelope_phase := Release, envelope_timer := 0\<rparr>"

definition is_finished :: "voice \<Rightarrow> bool" where
  "is_finished self = (envelope_phase self = Finished)"

text \<open>
  The branch of \<^verbatim>\<open>update_envelope\<close> taken after the timer has been advanced: one
  arm of the \<^verbatim>\<open>if/elif\<close> chain per call.
\<close>

definition envelope_branch :: "voice \<Rightarrow> voice" where
  "envelope_branch self =
     (case envelope_phase self of
        Attack \<Rightarrow>
          if attack_time self > 0 then
            let progress = min 1 (envelope_timer self / attack_time self);
                self1 = self\<lparr>envelope_value := progress\<rparr>
            in if progress \<ge> 1
               then self1\<lparr>envelope_phase := Decay, envelope_timer := 0\<rparr>
               else self1
          else self\<lparr>envelope_value := 1, envelope_phase := Decay\<rparr>
      | Decay \<Rightarrow>
          if decay_time self > 0 then
            let progress = min 1 (envelope_timer self / decay_time self);
                self1 = self\<lparr>envelope_value := 1 - progress * (1 - sustain_level self)\<rparr>
            in if progress \<ge> 1
               then self1\<lparr>envelope_phase := Sustain\<rparr>
               else self1
          else self\<lparr>envelope_value := sustain_level self, envelope_phase := Sustain\<rparr>
      | Sustain \<Rightarrow> self\<lparr>envelope_value := sustain_level self\<rparr>
      | Release \<Rightarrow>
          if release_time self > 0 then
            let progress = min 1 (envelope_timer self / release_time self);
                self1 = self\<lparr>envelope_value := sustain_level self * (1 - progress)\<rparr>
            in if progress \<ge> 1
               then self1\<lparr>envelope_phase := Finished\<rparr>
               else self1
          else self\<lparr>envelope_phase := Finished\<rparr>
      | Finished \<Rightarrow> self)"

text \<open>
  \<^verbatim>\<open>update_envelope(frames)\<close>: the division \<^verbatim>\<open>frames / self.sample_rate\<close> raises
  when the sample rate is 0, before any attribute is written. The result is the
  returned envelope value and the updated voice.
\<close>

definition update_envelope :: "voice \<Rightarrow> nat \<Rightarrow> py_error + (real \<times> voice)" where
  "update_envelope self frames =
     (if sample_rate self = 0 then Inl ZeroDivisionError
      else
        let dt = real frames / real_of_int (sample_rate self);
            self1 = envelope_branch (self\<lparr>envelope_timer := envelope_timer self + dt\<rparr>)
        in Inr (envelope_value self1, self1))"

text \<open>
  The raw oscillator block of \<^verbatim>\<open>generate\<close> (the phase array and the waveform
  selection), before filter, envelope and velocity.
\<close>

definition oscillator :: "int \<Rightarrow> real \<Rightarrow> real \<Rightarrow> nat \<Rightarrow> real list" where
  "oscillator waveform ph phase_increment frames =
     (let phases = map (\<lambda>i. ph + real i * phase_increment) [0..<frames]
      in if waveform = 1 then map (\<lambda>p. sgn (sin p)) phases
         else if waveform = 2 then map (\<lambda>p. 2 * py_fmod (p / (2 * pi)) 1 - 1) phases
         else if waveform = 3 then
           map (\<lambda>p. 2 * \<bar>2 * py_fmod (p / (2 * pi)) 1 - 1\<bar> - 1) phases
         else map sin phases)"

text \<open>
  The filter loop of \<^verbatim>\<open>generate\<close>: each sample is replaced by the new filter state.
  Returns the filtered block and the final \<^verbatim>\<open>filter_state\<close>.
\<close>

fun filter_loop :: "real \<Rightarrow> real list \<Rightarrow> real \<Rightarrow> real list \<times> real" where
  "filter_loop alpha [] st = ([], st)"
| "filter_loop alpha (x # xs) st =
     (let st1 = alpha * x + (1 - alpha) * st;
          (ys, st2) = filter_loop alpha xs st1
      in (st1 # ys, st2))"

definition generate ::
  "voice \<Rightarrow> nat \<Rightarrow> int \<Rightarrow> real \<Rightarrow> real \<Rightarrow> py_error + (real list \<times> voice)" where
  "generate self frames waveform filter_cutoff detune =
     (if envelope_phase self = Finished then Inr (replicate frames 0, self)
      else if sample_rate self = 0 then Inl ZeroDivisionError
      else
        let detuned_freq = frequency self * (2 powr (detune / 1200));
            phase_increment = 2 * pi * detuned_freq / real_of_int (sample_rate self);
            audio = oscillator waveform (phase self) phase_increment frames;
            self1 = self\<lparr>phase := py_fmod (phase self + real frames * phase_increment) (2 * pi)\<rparr>;
            (audio1, self2) =
              (if filter_cutoff < 6000 \<and> (waveform = 1 \<or> waveform = 2) then
                 let alpha = min 0.5 (filter_cutoff / 6000);
                     (ys, st) = filter_loop alpha audio (filter_state self1)
                 in (ys, self1\<lparr>filter_state := st\<rparr>)
               else (audio, self1))
        in case update_envelope self2 frames of
             Inl e \<Rightarrow> Inl e
           | Inr (envelope, self3) \<Rightarrow>
               Inr (map (\<lambda>x. x * (envelope * velocity self3)) audio1, self3))"

section \<open>MPKVoice (mpk\_only\_synth.py)\<close>

definition MPKVoice_init :: "int \<Rightarrow> int \<Rightarrow> int \<Rightarrow> envelope_params \<Rightarrow> voice" where
  "MPKVoice_init note vel sr synth_params =
     \<lparr> note_number = note,
       velocity = real_of_int vel / 127,
       frequency = 440 * (2 powr (real_of_int (note - 69) / 12)),
       phase = 0,
       sample_rate = sr,
       attack_time = env_attack synth_params,
       decay_time = env_decay synth_params,
       sustain_level = env_sustain synth_params,
       release_time = env_release synth_params,
       envelope_phase = Attack,
       envelope_value = 0,
       envelope_timer = 0,
       releasing = False,
       filter_state = 0 \<rparr>"

definition MPKVoice_release :: "voice \<Rightarrow> voice" where
  "MPKVoice_release self =
     self\<lparr>releasing := True, envelope_phase := Release, envelope_timer := 0\<rparr>"

definition MPKVoice_is_finished :: "voice \<Rightarrow> bool" where
  "MPKVoice_is_finished self = (envelope_phase self = Finished)"

definition MPKVoice_envelope_branch :: "voice \<Rightarrow> voice" where
  "MPKVoice_envelope_branch self =
     (case envelope_phase self of
        Attack \<Rightarrow>
          if attack_time self > 0 then
            let progress = min 1 (envelope_timer self / attack_time self);
                self1 = self\<lparr>envelope_value := progress\<rparr>
            in if progress \<ge> 1
               then self1\<lparr>envelope_phase := Decay, envelope_timer := 0\<rparr>
               else self1
          else self\<lparr>envelope_value := 1, envelope_phase := Decay\<rparr>
      | Decay \<Rightarrow>
          if decay_time self > 0 then
            let progress = min 1 (envelope_timer self / decay_time self);
                self1 = self\<lparr>envelope_value := 1 - progress * (1 - sustain_level self)\<rparr>
            in if progress \<ge> 1
               then self1\<lparr>envelope_phase := Sustain\<rparr>
               else self1
          else self\<lparr>envelope_value := sustain_level self, envelope_phase := Sustain\<rparr>
      | Sustain \<Rightarrow> self\<lparr>envelope_value := sustain_level self\<rparr>
      | Release \<Rightarrow>
          if release_time self > 0 then
            let progress = min 1 (envelope_timer self / release_time self);
                self1 = self\<lparr>envelope_value := sustain_level self * (1 - progress)\<rparr>
            in if progress \<ge> 1
               then self1\<lparr>envelope_phase := Finished\<rparr>
               else self1
          else self\<lparr>envelope_phase := Finished\<rparr>
      | Finished \<Rightarrow> self)"

definition MPKVoice_update_envelope :: "voice \<Rightarrow> nat \<Rightarrow> py_error + (real \<times> voice)" where
  "MPKVoice_update_envelope self frames =
     (if sample_rate self = 0 then Inl ZeroDivisionError
      else
        let dt = real frames / real_of_int (sample_rate self);
            self1 = MPKVoice_envelope_branch
                      (self\<lparr>envelope_timer := envelope_timer self + dt\<rparr>)
        in Inr (envelope_value self1, self1))"

definition MPKVoice_oscillator :: "int \<Rightarrow> real \<Rightarrow> real \<Rightarrow> nat \<Rightarrow> real list" where
  "MPKVoice_oscillator waveform ph phase_increment frames =
     (let phases = map (\<lambda>i. ph + real i * phase_increment) [0..<frames]
      in if waveform = 1 then map (\<lambda>p. sgn (sin p)) phases
         else if waveform = 2 then map (\<lambda>p. 2 * py_fmod (p / (2 * pi)) 1 - 1) phases
         else if waveform = 3 then
           map (\<lambda>p. 2 * \<bar>2 * py_fmod (p / (2 * pi)) 1 - 1\<bar> - 1) phases
         else map sin phases)"

fun MPKVoice_filter_loop :: "real \<Rightarrow> real list \<Rightarrow> real \<Rightarrow> real list \<times> real" where
  "MPKVoice_filter_loop alpha [] st = ([], st)"
| "MPKVoice_filter_loop alpha (x # xs) st =
     (let st1 = alpha * x + (1 - alpha) * st;
          (ys, st2) = MPKVoice_filter_loop alpha xs st1
      in (st1 # ys, st2))"

definition MPKVoice_generate ::
  "voice \<Rightarrow> nat \<Rightarrow> int \<Rightarrow> real \<Rightarrow> real \<Rightarrow> py_error + (real list \<times> voice)" where
  "MPKVoice_generate self frames waveform filter_cutoff detune =
     (if envelope_phase self = Finished then Inr (replicate frames 0, self)
      else if sample_rate self = 0 then Inl ZeroDivisionError
      else
        let detuned_freq = frequency self * (2 powr (detune / 1200));
            phase_increment = 2 * pi * detuned_freq / real_of_int (sample_rate self);
            audio = MPKVoice_oscillator waveform (phase self) phase_increment frames;
            self1 = self\<lparr>phase := py_fmod (phase self + real frames * phase_increment) (2 * pi)\<rparr>;
            (audio1, self2) =
              (if filter_cutoff < 6000 \<and> (waveform = 1 \<or> waveform = 2) then
                 let alpha = min 0.5 (filter_cutoff / 6000);
                     (ys, st) = MPKVoice_filter_loop alpha audio (filter_state self1)
                 in (ys, self1\<lparr>filter_state := st\<rparr>)
               else (audio, self1))
        in case MPKVoice_update_envelope self2 frames of
             Inl e \<Rightarrow> Inl e
           | Inr (envelope, self3) \<Rightarrow>
               Inr (map (\<lambda>x. x * (envelope * velocity self3)) audio1, self3))"

section \<open>The voice pool: a Python dict from note to voice\<close>

text \<open>
  \<^verbatim>\<open>self.voices\<close> is a dict, which keeps its keys in insertion order: an association
  list. \<^verbatim>\<open>del d[k]\<close> is \<open>AList.delete\<close>, \<^verbatim>\<open>d[k] = v\<close> is \<open>AList.update\<close> (in place
  for a present key, appended otherwise), and a method call on \<^verbatim>\<open>d[k]\<close> that mutates
  the object is \<open>AList.map_entry\<close>.
\<close>

type_synonym voice_pool = "(int \<times> voice) list"

definition dict_contains :: "int \<Rightarrow> voice_pool \<Rightarrow> bool" where
  "dict_contains k d = (k \<in> set (map fst d))"

text \<open>\<^verbatim>\<open>min(d.keys())\<close> raises \<^verbatim>\<open>ValueError\<close> on an empty dict.\<close>

fun py_min :: "int list \<Rightarrow> py_error + int" where
  "py_min [] = Inl ValueError"
| "py_min (x # xs) = Inr (fold min xs x)"

section \<open>FourPotMIDISynth (midi\_poly\_synth.py)\<close>

text \<open>
  The attributes the note and render paths read and write; the hardware handles,
  \<^verbatim>\<open>blocksize\<close> and the thread flags play no part in them.
\<close>

record FourPotMIDISynth =
  fp_sample_rate :: int
  fp_master_volume :: real
  fp_waveform :: int
  fp_filter_cutoff :: real
  fp_envelope_control :: real
  fp_detune :: real
  fp_voices :: voice_pool
  fp_max_voices :: int

definition FourPotMIDISynth_init :: "int \<Rightarrow> FourPotMIDISynth" where
  "FourPotMIDISynth_init sr =
     \<lparr> fp_sample_rate = sr, fp_master_volume = 0.5, fp_waveform = 0,
       fp_filter_cutoff = 1000, fp_envelope_control = 0.5, fp_detune = 0,
       fp_voices = [], fp_max_voices = 12 \<rparr>"

definition get_envelope_params :: "FourPotMIDISynth \<Rightarrow> envelope_params" where
  "get_envelope_params self =
     (let base_attack = 0.01; base_decay = 0.1; base_sustain = 0.7; base_release = 0.3;
          scale = 0.1 + fp_envelope_control self * 4
      in \<lparr> env_attack = base_attack * scale, env_decay = base_decay * scale,
           env_sustain = base_sustain, env_release = base_release * scale \<rparr>)"

definition note_on :: "FourPotMIDISynth \<Rightarrow> int \<Rightarrow> int \<Rightarrow> py_error + FourPotMIDISynth" where
  "note_on self note vel =
     (let envelope_params = get_envelope_params self;
          voices1 = (if dict_contains note (fp_voices self)
                     then AList.delete note (fp_voices self) else fp_voices self);
          new_voice = PolyphonicVoice_init note vel (fp_sample_rate self) envelope_params
      in if int (length voices1) \<ge> fp_max_voices self then
           (case py_min (map fst voices1) of
              Inl e \<Rightarrow> Inl e
            | Inr oldest_note \<Rightarrow>
                Inr (self\<lparr>fp_voices :=
                       AList.update note new_voice (AList.delete oldest_note voices1)\<rparr>))
         else Inr (self\<lparr>fp_voices := AList.update note new_voice voices1\<rparr>))"

definition note_off :: "FourPotMIDISynth \<Rightarrow> int \<Rightarrow> FourPotMIDISynth" where
  "note_off self note =
     (if dict_contains note (fp_voices self)
      then self\<lparr>fp_voices := AList.map_entry note release (fp_voices self)\<rparr>
      else self)"

text \<open>
  The mixing loop of \<^verbatim>\<open>audio_callback\<close> over \<^verbatim>\<open>self.voices.items()\<close>. It returns the
  mixed block, \<^verbatim>\<open>voices_to_remove\<close> and the pool with the voices as \<^verbatim>\<open>generate\<close> left
  them; when \<^verbatim>\<open>generate\<close> raises, the error comes with the pool as it is at that
  moment (the voices before the failing one already advanced).
\<close>

fun mix_voices ::
  "nat \<Rightarrow> int \<Rightarrow> real \<Rightarrow> real \<Rightarrow> voice_pool \<Rightarrow> real list \<Rightarrow> int list \<Rightarrow>
     (py_error \<times> voice_pool) + (real list \<times> int list \<times> voice_pool)" where
  "mix_voices frames waveform filter_cutoff detune [] audio voices_to_remove =
     Inr (audio, voices_to_remove, [])"
| "mix_voices frames waveform filter_cutoff detune ((note, v) # rest) audio voices_to_remove =
     (if is_finished v then
        (case mix_voices frames waveform filter_cutoff detune rest audio
                (voices_to_remove @ [note]) of
           Inl (e, vs) \<Rightarrow> Inl (e, (note, v) # vs)
         | Inr (a, r, vs) \<Rightarrow> Inr (a, r, (note, v) # vs))
      else
        (case generate v frames waveform filter_cutoff detune of
           Inl e \<Rightarrow> Inl (e, (note, v) # rest)
         | Inr (voice_audio, v1) \<Rightarrow>
             (case mix_voices frames waveform filter_cutoff detune rest
                     (map2 (+) audio voice_audio) voices_to_remove of
                Inl (e, vs) \<Rightarrow> Inl (e, (note, v1) # vs)
              | Inr (a, r, vs) \<Rightarrow> Inr (a, r, (note, v1) # vs))))"

text \<open>The body of the \<^verbatim>\<open>try\<close> block: the stereo block and the new state, or the error.\<close>

definition render ::
  "FourPotMIDISynth \<Rightarrow> nat \<Rightarrow>
     (py_error \<times> FourPotMIDISynth) + ((real \<times> real) list \<times> FourPotMIDISynth)" where
  "render self frames =
     (case mix_voices frames (fp_waveform self) (fp_filter_cutoff self) (fp_detune self)
             (fp_voices self) (replicate frames 0) [] of
        Inl (e, vs) \<Rightarrow> Inl (e, self\<lparr>fp_voices := vs\<rparr>)
      | Inr (audio, voices_to_remove, vs) \<Rightarrow>
          let vs1 = fold AList.delete voices_to_remove vs;
              audio1 = map (\<lambda>x. x * fp_master_volume self) audio;
              audio2 = map (\<lambda>x. tanh (x * 0.7) * 1.2) audio1
          in Inr (map (\<lambda>x. (x, x)) audio2, self\<lparr>fp_voices := vs1\<rparr>))"

text \<open>
  \<^verbatim>\<open>audio_callback\<close>: the \<^verbatim>\<open>except Exception\<close> handler fills \<^verbatim>\<open>outdata\<close> (\<open>frames\<close> rows of
  two channels) with zeros. The result is \<^verbatim>\<open>outdata\<close> and the state after the call.
\<close>

definition audio_callback ::
  "FourPotMIDISynth \<Rightarrow> nat \<Rightarrow> (real \<times> real) list \<times> FourPotMIDISynth" where
  "audio_callback self frames =
     (case render self frames of
        Inl (e, self1) \<Rightarrow> (replicate frames (0, 0), self1)
      | Inr (outdata, self1) \<Rightarrow> (outdata, self1))"

section \<open>MPKOnlySynth (mpk\_only\_synth.py)\<close>

record MPKOnlySynth =
  mpk_sample_rate :: int
  mpk_master_volume :: real
  mpk_waveform :: int
  mpk_filter_cutoff :: real
  mpk_attack_time :: real
  mpk_decay_time :: real
  mpk_sustain_level :: real
  mpk_release_time :: real
  mpk_detune :: real
  mpk_voices :: voice_pool
  mpk_max_voices :: int

definition MPKOnlySynth_init :: "int \<Rightarrow> MPKOnlySynth" where
  "MPKOnlySynth_init sr =
     \<lparr> mpk_sample_rate = sr, mpk_master_volume = 0.5, mpk_waveform = 0,
       mpk_filter_cutoff = 1000, mpk_attack_time = 0.01, mpk_decay_time = 0.1,
       mpk_sustain_level = 0.7, mpk_release_time = 0.3, mpk_detune = 0,
       mpk_voices = [], mpk_max_voices = 16 \<rparr>"

definition get_synth_params :: "MPKOnlySynth \<Rightarrow> envelope_params" where
  "get_synth_params self =
     \<lparr> env_attack = mpk_attack_time self, env_decay = mpk_decay_time self,
       env_sustain = mpk_sustain_level self, env_release = mpk_release_time self \<rparr>"

definition MPK_note_on :: "MPKOnlySynth \<Rightarrow> int \<Rightarrow> int \<Rightarrow> py_error + MPKOnlySynth" where
  "MPK_note_on self note vel =
     (let synth_params = get_synth_params self;
          voices1 = (if dict_contains note (mpk_voices self)
                     then AList.delete note (mpk_voices self) else mpk_voices self);
          new_voice = MPKVoice_init note vel (mpk_sample_rate self) synth_params
      in if int (length voices1) \<ge> mpk_max_voices self then
           (case py_min (map fst voices1) of
              Inl e \<Rightarrow> Inl e
            | Inr oldest_note \<Rightarrow>
                Inr (self\<lparr>mpk_voices :=
                       AList.update note new_voice (AList.delete oldest_note voices1)\<rparr>))
         else Inr (self\<lparr>mpk_voices := AList.update note new_voice voices1\<rparr>))"

definition MPK_note_off :: "MPKOnlySynth \<Rightarrow> int \<Rightarrow> MPKOnlySynth" where
  "MPK_note_off self note =
     (if dict_contains note (mpk_voices self)
      then self\<lparr>mpk_voices := AList.map_entry note MPKVoice_release (mpk_voices self)\<rparr>
      else self)"

fun MPK_mix_voices ::
  "nat \<Rightarrow> int \<Rightarrow> real \<Rightarrow> real \<Rightarrow> voice_pool \<Rightarrow> real list \<Rightarrow> int list \<Rightarrow>
     (py_error \<times> voice_pool) + (real list \<times> int list \<times> voice_pool)" where
  "MPK_mix_voices frames waveform filter_cutoff detune [] audio voices_to_remove =
     Inr (audio, voices_to_remove, [])"
| "MPK_mix_voices frames waveform filter_cutoff detune ((note, v) # rest) audio
       voices_to_remove =
     (if MPKVoice_is_finished v then
        (case MPK_mix_voices frames waveform filter_cutoff detune rest audio
                (voices_to_remove @ [note]) of
           Inl (e, vs) \<Rightarrow> Inl (e, (note, v) # vs)
         | Inr (a, r, vs) \<Rightarrow> Inr (a, r, (note, v) # vs))
      else
        (case MPKVoice_generate v frames waveform filter_cutoff detune of
           Inl e \<Rightarrow> Inl (e, (note, v) # rest)
         | Inr (voice_audio, v1) \<Rightarrow>
             (case MPK_mix_voices frames waveform filter_cutoff detune rest
                     (map2 (+) audio voice_audio) voices_to_remove of
                Inl (e, vs) \<Rightarrow> Inl (e, (note, v1) # vs)
              | Inr (a, r, vs) \<Rightarrow> Inr (a, r, (note, v1) # vs))))"

definition MPK_render ::
  "MPKOnlySynth \<Rightarrow> nat \<Rightarrow>
     (py_error \<times> MPKOnlySynth) + ((real \<times> real) list \<times> MPKOnlySynth)" where
  "MPK_render self frames =
     (case MPK_mix_voices frames (mpk_waveform self) (mpk_filter_cutoff self)
             (mpk_detune self) (mpk_voices self) (replicate frames 0) [] of
        Inl (e, vs) \<Rightarrow> Inl (e, self\<lparr>mpk_voices := vs\<rparr>)
      | Inr (audio, voices_to_remove, vs) \<Rightarrow>
          let vs1 = fold AList.delete voices_to_remove vs;
              audio1 = map (\<lambda>x. x * mpk_master_volume self) audio;
              audio2 = map (\<lambda>x. tanh (x * 0.7) * 1.2) audio1
          in Inr (map (\<lambda>x. (x, x)) audio2, self\<lparr>mpk_voices := vs1\<rparr>))"

definition MPK_audio_callback ::
  "MPKOnlySynth \<Rightarrow> nat \<Rightarrow> (real \<times> real) list \<times> MPKOnlySynth" where
  "MPK_audio_callback self frames =
     (case MPK_render self frames of
        Inl (e, self1) \<Rightarrow> (replicate frames (0, 0), self1)
      | Inr (outdata, self1) \<Rightarrow> (outdata, self1))"

section \<open>Sequences of calls\<close>

text \<open>
  A sequence of calls made on a synthesizer by its MIDI callback and by the audio
  stream. An exception of \<^verbatim>\<open>note_on\<close> ends the sequence with that error.
\<close>

datatype synth_call = NoteOn int int | NoteOff int | AudioCallback nat

fun run_calls :: "FourPotMIDISynth \<Rightarrow> synth_call list \<Rightarrow> py_error + FourPotMIDISynth" where
  "run_calls self [] = Inr self"
| "run_calls self (NoteOn note vel # cs) =
     (case note_on self note vel of Inl e \<Rightarrow> Inl e | Inr self1 \<Rightarrow> run_calls self1 cs)"
| "run_calls self (NoteOff note # cs) = run_calls (note_off self note) cs"
| "run_calls self (AudioCallback frames # cs) =
     run_calls (snd (audio_callback self frames)) cs"

fun MPK_run_calls :: "MPKOnlySynth \<Rightarrow> synth_call list \<Rightarrow> py_error + MPKOnlySynth" where
  "MPK_run_calls self [] = Inr self"
| "MPK_run_calls self (NoteOn note vel # cs) =
     (case MPK_note_on self note vel of
        Inl e \<Rightarrow> Inl e | Inr self1 \<Rightarrow> MPK_run_calls self1 cs)"
| "MPK_run_calls self (NoteOff note # cs) = MPK_run_calls (MPK_note_off self note) cs"
| "MPK_run_calls self (AudioCallback frames # cs) =
     MPK_run_calls (snd (MPK_audio_callback self frames)) cs"

text \<open>The pool invariant: keys unique and at most \<open>mx\<close> voices.\<close>

definition pool_inv :: "int \<Rightarrow> voice_pool \<Rightarrow> bool" where
  "pool_inv mx d = (distinct (map fst d) \<and> int (length d) \<le> mx)"

text \<open>
  A sequence of calls on one voice object, and the blocks the \<^verbatim>\<open>generate\<close> calls
  return, for each of the two voice classes.
\<close>

datatype voice_call = CallRelease | CallGenerate nat int real real

fun run_voice :: "voice \<Rightarrow> voice_call list \<Rightarrow> py_error + (real list list \<times> voice)" where
  "run_voice self [] = Inr ([], self)"
| "run_voice self (CallRelease # cs) = run_voice (release self) cs"
| "run_voice self (CallGenerate frames waveform filter_cutoff detune # cs) =
     (case generate self frames waveform filter_cutoff detune of
        Inl e \<Rightarrow> Inl e
      | Inr (block, self1) \<Rightarrow>
          (case run_voice self1 cs of
             Inl e \<Rightarrow> Inl e
           | Inr (blocks, self2) \<Rightarrow> Inr (block # blocks, self2)))"

fun MPK_run_voice :: "voice \<Rightarrow> voice_call list \<Rightarrow> py_error + (real list list \<times> voice)" where
  "MPK_run_voice self [] = Inr ([], self)"
| "MPK_run_voice self (CallRelease # cs) = MPK_run_voice (MPKVoice_release self) cs"
| "MPK_run_voice self (CallGenerate frames waveform filter_cutoff detune # cs) =
     (case MPKVoice_generate self frames waveform filter_cutoff detune of
        Inl e \<Rightarrow> Inl e
      | Inr (block, self1) \<Rightarrow>
          (case MPK_run_voice self1 cs of
             Inl e \<Rightarrow> Inl e
           | Inr (blocks, self2) \<Rightarrow> Inr (block # blocks, self2)))"

text \<open>
  The envelope after a list of \<^verbatim>\<open>update_envelope\<close> calls with the given block
  lengths, on a voice whose sample rate is not 0.
\<close>

fun update_envelopes :: "voice \<Rightarrow> nat list \<Rightarrow> py_error + voice" where
  "update_envelopes self [] = Inr self"
| "update_envelopes self (frames # fs) =
     (case update_envelope self frames of
        Inl e \<Rightarrow> Inl e
      | Inr (value, self1) \<Rightarrow> update_envelopes self1 fs)"

text \<open>
  The first two lines of \<^verbatim>\<open>update_envelope\<close>: the timer advanced by the block
  duration \<^verbatim>\<open>frames / self.sample_rate\<close>.
\<close>

definition advance_timer :: "voice \<Rightarrow> nat \<Rightarrow> voice" where
  "advance_timer v f =
     v\<lparr>envelope_timer := envelope_timer v + real f / real_of_int (sample_rate v)\<rparr>"

text \<open>
  A voice that has been released: still in Release, or Finished with the release time
  elapsed and the value at 0. The release ramp at elapsed time \<open>t\<close>.
\<close>

definition release_inv :: "voice \<Rightarrow> bool" where
  "release_inv u \<longleftrightarrow>
     envelope_phase u = Release \<or>
     (envelope_phase u = Finished \<and> release_time u \<le> envelope_timer u \<and> envelope_value u = 0)"

definition release_curve :: "voice \<Rightarrow> real \<Rightarrow> real" where
  "release_curve u t = sustain_level u * (1 - min 1 (t / release_time u))"

text \<open>
  The pool part of \<^verbatim>\<open>note_on\<close>, which the two synthesizers share word for word: the
  retrigger deletion, the polyphony limit and the insertion, with the capacity, the
  note and the new voice as parameters.
\<close>

definition pool_note_on :: "int \<Rightarrow> int \<Rightarrow> voice \<Rightarrow> voice_pool \<Rightarrow> py_error + voice_pool" where
  "pool_note_on mx k new_voice d =
     (let d1 = (if dict_contains k d then AList.delete k d else d)
      in if int (length d1) \<ge> mx then
           (case py_min (map fst d1) of
              Inl e \<Rightarrow> Inl e
            | Inr oldest_note \<Rightarrow> Inr (AList.update k new_voice (AList.delete oldest_note d1)))
         else Inr (AList.update k new_voice d1))"

section \<open>The oscillator\<close>

lemma py_fmod_one: "py_fmod x 1 = frac x"
  by (simp add: py_fmod_def frac_def)

lemma py_fmod_one_bounds: "0 \<le> py_fmod x 1 \<and> py_fmod x 1 < 1"
  by (simp add: py_fmod_one frac_lt_1)

lemma square_bounds: "-1 \<le> sgn (sin (p::real)) \<and> sgn (sin p) \<le> 1"
  by (simp add: sgn_real_def)

lemma sawtooth_bounds: "-1 \<le> 2 * py_fmod x 1 - 1 \<and> 2 * py_fmod x 1 - 1 \<le> 1"
  using py_fmod_one_bounds [of x] by simp

lemma triangle_bounds:
  "-1 \<le> 2 * \<bar>2 * py_fmod x 1 - 1\<bar> - 1 \<and> 2 * \<bar>2 * py_fmod x 1 - 1\<bar> - 1 \<le> 1"
  using py_fmod_one_bounds [of x] by (simp add: abs_le_iff)

lemma length_oscillator: "length (oscillator w ph inc f) = f"
  by (simp add: oscillator_def Let_def)

text \<open>
  C8. For every waveform number (1 Square, 2 Sawtooth, 3 Triangle, anything else Sine),
  starting phase, phase increment (so every frequency and sample rate) and block
  length, the raw oscillator block of \<^verbatim>\<open>generate\<close> has the block length and each of its
  samples lies in \<open>[-1, 1]\<close>.
\<close>

theorem oscillator_bounded:
  "length (oscillator waveform ph phase_increment frames) = frames \<and>
   (\<forall>x \<in> set (oscillator waveform ph phase_increment frames). -1 \<le> x \<and> x \<le> 1)"
  using square_bounds sawtooth_bounds triangle_bounds
  by (auto simp: oscillator_def Let_def)

theorem oscillator_bounded_witness:
  "oscillator 2 0 0 (Suc (Suc 0)) = [-1, -1] \<and>
   length (oscillator 2 0 0 (Suc (Suc 0))) = Suc (Suc 0) \<and>
   -1 \<le> oscillator 2 0 0 (Suc (Suc 0)) ! 0 \<and> oscillator 2 0 0 (Suc (Suc 0)) ! 0 \<le> 1"
  using oscillator_bounded [of 2 0 0 "Suc (Suc 0)"]
  by (simp add: oscillator_def py_fmod_def)

section \<open>The two voice classes\<close>

lemma MPKVoice_release_eq: "MPKVoice_release = release"
  by (simp add: fun_eq_iff MPKVoice_release_def release_def)

lemma MPKVoice_is_finished_eq: "MPKVoice_is_finished = is_finished"
  by (simp add: fun_eq_iff MPKVoice_is_finished_def is_finished_def)

lemma MPKVoice_init_eq: "MPKVoice_init = PolyphonicVoice_init"
  by (simp add: fun_eq_iff MPKVoice_init_def PolyphonicVoice_init_def)

lemma MPKVoice_envelope_branch_eq: "MPKVoice_envelope_branch = envelope_branch"
  by (simp add: fun_eq_iff MPKVoice_envelope_branch_def envelope_branch_def)

lemma MPKVoice_update_envelope_eq: "MPKVoice_update_envelope = update_envelope"
  by (simp add: fun_eq_iff MPKVoice_update_envelope_def update_envelope_def
      MPKVoice_envelope_branch_eq)

lemma MPKVoice_oscillator_eq: "MPKVoice_oscillator = oscillator"
  by (simp add: fun_eq_iff MPKVoice_oscillator_def oscillator_def)

lemma MPKVoice_filter_loop_eq: "MPKVoice_filter_loop alpha xs st = filter_loop alpha xs st"
  by (induction xs arbitrary: st) simp_all

lemma MPKVoice_generate_eq: "MPKVoice_generate = generate"
  unfolding fun_eq_iff MPKVoice_generate_def generate_def MPKVoice_update_envelope_eq
    MPKVoice_oscillator_eq MPKVoice_filter_loop_eq
  by (rule allI)+ (rule refl)

lemma MPK_run_voice_eq: "MPK_run_voice v calls = run_voice v calls"
proof (induction calls arbitrary: v)
  case Nil
  show ?case by simp
next
  case (Cons c cs)
  show ?case
    by (cases c)
      (simp_all add: Cons.IH MPKVoice_release_eq MPKVoice_generate_eq
        split: sum.splits prod.splits)
qed

text \<open>
  C9. \<^verbatim>\<open>MPKVoice\<close> and \<^verbatim>\<open>PolyphonicVoice\<close> are behaviourally equivalent: built from the
  same constructor arguments and given the same sequence of \<^verbatim>\<open>release()\<close> and
  \<^verbatim>\<open>generate(frames, waveform, filter_cutoff, detune)\<close> calls, both raise the same error
  or both return the same blocks and end in the same state (all attributes, among them
  the phase, the filter memory and the envelope phase, value and timer).
\<close>

theorem voice_classes_equivalent:
  "MPK_run_voice (MPKVoice_init note vel sr params) calls =
   run_voice (PolyphonicVoice_init note vel sr params) calls"
  by (simp add: MPK_run_voice_eq MPKVoice_init_eq)

section \<open>The envelope inside \<^verbatim>\<open>generate\<close>\<close>

lemma envelope_branch_phase_update:
  "envelope_branch (u\<lparr>phase := p\<rparr>) = (envelope_branch u)\<lparr>phase := p\<rparr>"
  by (simp add: envelope_branch_def Let_def split: env_phase.splits)

lemma envelope_branch_filter_state_update:
  "envelope_branch (u\<lparr>filter_state := st\<rparr>) = (envelope_branch u)\<lparr>filter_state := st\<rparr>"
  by (simp add: envelope_branch_def Let_def split: env_phase.splits)

lemma length_filter_loop:
  "filter_loop alpha xs st = (ys, st1) \<Longrightarrow> length ys = length xs"
  by (induction xs arbitrary: st ys st1) (auto simp: Let_def split: prod.splits)

lemma update_envelope_advance:
  "sample_rate v \<noteq> 0 \<Longrightarrow>
   update_envelope v f =
     Inr (envelope_value (envelope_branch (advance_timer v f)), envelope_branch (advance_timer v f))"
  by (simp add: update_envelope_def Let_def advance_timer_def)

lemma advance_timer_phase_update:
  "advance_timer (u\<lparr>phase := p\<rparr>) f = (advance_timer u f)\<lparr>phase := p\<rparr>"
  by (simp add: advance_timer_def)

lemma advance_timer_filter_state_update:
  "advance_timer (u\<lparr>filter_state := st\<rparr>) f = (advance_timer u f)\<lparr>filter_state := st\<rparr>"
  by (simp add: advance_timer_def)

lemma envelope_branch_frame:
  "velocity (envelope_branch u) = velocity u"
  "sample_rate (envelope_branch u) = sample_rate u"
  "attack_time (envelope_branch u) = attack_time u"
  "decay_time (envelope_branch u) = decay_time u"
  "sustain_level (envelope_branch u) = sustain_level u"
  "release_time (envelope_branch u) = release_time u"
  "phase (envelope_branch u) = phase u"
  "filter_state (envelope_branch u) = filter_state u"
  by (simp_all add: envelope_branch_def Let_def split: env_phase.splits)

lemma advance_timer_frame:
  "velocity (advance_timer u f) = velocity u"
  "sample_rate (advance_timer u f) = sample_rate u"
  "attack_time (advance_timer u f) = attack_time u"
  "decay_time (advance_timer u f) = decay_time u"
  "sustain_level (advance_timer u f) = sustain_level u"
  "release_time (advance_timer u f) = release_time u"
  "envelope_phase (advance_timer u f) = envelope_phase u"
  "envelope_value (advance_timer u f) = envelope_value u"
  "phase (advance_timer u f) = phase u"
  "filter_state (advance_timer u f) = filter_state u"
  by (simp_all add: advance_timer_def)

lemmas envelope_commute = envelope_branch_phase_update envelope_branch_filter_state_update
  advance_timer_phase_update advance_timer_filter_state_update

lemma generate_Inr:
  assumes "envelope_phase v \<noteq> Finished" "sample_rate v \<noteq> 0"
  shows "\<exists>block p st. generate v f w c d =
            Inr (block, (envelope_branch (advance_timer v f))\<lparr>phase := p, filter_state := st\<rparr>)
          \<and> length block = f"
proof (cases "c < 6000 \<and> (w = 1 \<or> w = 2)")
  case True
  define inc where
    "inc = 2 * pi * (frequency v * (2 powr (d / 1200))) / real_of_int (sample_rate v)"
  obtain ys st where fl:
    "filter_loop (min 0.5 (c / 6000)) (oscillator w (phase v) inc f) (filter_state v) = (ys, st)"
    by (cases "filter_loop (min 0.5 (c / 6000)) (oscillator w (phase v) inc f) (filter_state v)")
  have len: "length ys = f"
    using length_filter_loop [OF fl] by (simp add: length_oscillator)
  have "generate v f w c d =
     Inr (map (\<lambda>x. x * (envelope_value (envelope_branch (advance_timer v f)) * velocity v)) ys,
       (envelope_branch (advance_timer v f))
         \<lparr>phase := py_fmod (phase v + real f * inc) (2 * pi), filter_state := st\<rparr>)"
    using assms True fl [unfolded inc_def]
    by (simp add: generate_def Let_def update_envelope_advance envelope_commute inc_def
        envelope_branch_frame advance_timer_frame)
  with len show ?thesis by auto
next
  case False
  define X where "X = envelope_branch (advance_timer v f)"
  define p where "p = py_fmod (phase v + real f *
      (2 * pi * (frequency v * (2 powr (d / 1200))) / real_of_int (sample_rate v))) (2 * pi)"
  define block where "block = map (\<lambda>x. x * (envelope_value X * velocity v))
      (oscillator w (phase v)
         (2 * pi * (frequency v * (2 powr (d / 1200))) / real_of_int (sample_rate v)) f)"
  have "generate v f w c d = Inr (block, X\<lparr>phase := p\<rparr>)"
    using assms False
    by (auto simp: generate_def Let_def update_envelope_advance envelope_commute
        envelope_branch_frame advance_timer_frame X_def p_def block_def)
  moreover have "X\<lparr>phase := p\<rparr> = X\<lparr>phase := p, filter_state := filter_state X\<rparr>"
    by simp
  moreover have "length block = f"
    by (simp add: block_def length_oscillator)
  ultimately show ?thesis
    unfolding X_def by metis
qed

lemma generate_envelope:
  assumes "envelope_phase v \<noteq> Finished" "sample_rate v \<noteq> 0"
  shows "\<exists>block v1. generate v f w c d = Inr (block, v1) \<and> length block = f
     \<and> envelope_phase v1 = envelope_phase (envelope_branch (advance_timer v f))
     \<and> envelope_value v1 = envelope_value (envelope_branch (advance_timer v f))
     \<and> envelope_timer v1 = envelope_timer (envelope_branch (advance_timer v f))
     \<and> attack_time v1 = attack_time v \<and> decay_time v1 = decay_time v
     \<and> sustain_level v1 = sustain_level v \<and> release_time v1 = release_time v
     \<and> sample_rate v1 = sample_rate v \<and> velocity v1 = velocity v"
proof -
  obtain block p st where g: "generate v f w c d =
       Inr (block, (envelope_branch (advance_timer v f))\<lparr>phase := p, filter_state := st\<rparr>)"
     "length block = f"
    using generate_Inr [OF assms] by blast
  show ?thesis
    unfolding g(1) using g(2)
    by (simp add: envelope_branch_frame advance_timer_frame)
qed

lemma generate_length:
  "generate v f w c d = Inr (block, v1) \<Longrightarrow> length block = f"
proof (cases "envelope_phase v = Finished \<or> sample_rate v = 0")
  case True
  assume "generate v f w c d = Inr (block, v1)"
  with True show ?thesis
    by (auto simp: generate_def split: if_splits)
next
  case False
  assume g: "generate v f w c d = Inr (block, v1)"
  from False generate_Inr [of v f w c d] g show ?thesis by auto
qed

lemma generate_raises_iff:
  "(\<exists>e. generate v f w c d = Inl e) \<longleftrightarrow> envelope_phase v \<noteq> Finished \<and> sample_rate v = 0"
proof (cases "envelope_phase v = Finished \<or> sample_rate v = 0")
  case True
  then show ?thesis by (auto simp: generate_def)
next
  case False
  with generate_Inr [of v f w c d] show ?thesis by auto
qed

section \<open>Zero attack and decay times\<close>

lemma attack_zero_branch:
  "envelope_phase u = Attack \<Longrightarrow> attack_time u = 0 \<Longrightarrow>
   envelope_phase (envelope_branch u) = Decay \<and> envelope_value (envelope_branch u) = 1"
  by (simp add: envelope_branch_def)

lemma decay_zero_branch:
  "envelope_phase u = Decay \<Longrightarrow> decay_time u = 0 \<Longrightarrow>
   envelope_phase (envelope_branch u) = Sustain \<and>
   envelope_value (envelope_branch u) = sustain_level u"
  by (simp add: envelope_branch_def)

text \<open>
  With attack 0, decay 0 and sustain 0.7, the first \<^verbatim>\<open>update_envelope\<close> after the
  constructor does not reach Sustain with value 0.7: for note 60, velocity 100, sample
  rate 44100 and a block of 512 frames it is not the case that the phase is Sustain and
  the returned value 0.7.
\<close>

theorem zero_attack_decay_counterexample:
  "\<not> (envelope_phase (snd (projr (update_envelope
          (PolyphonicVoice_init 60 100 44100
             \<lparr>env_attack = 0, env_decay = 0, env_sustain = 0.7, env_release = 0.3\<rparr>) 512)))
        = Sustain
      \<and> fst (projr (update_envelope
          (PolyphonicVoice_init 60 100 44100
             \<lparr>env_attack = 0, env_decay = 0, env_sustain = 0.7, env_release = 0.3\<rparr>) 512))
        = 0.7)"
  by (simp add: update_envelope_def PolyphonicVoice_init_def envelope_branch_def)

text \<open>
  C4, amended. With attack 0, decay 0 and sustain 0.7, the \<^verbatim>\<open>if/elif\<close> chain of
  \<^verbatim>\<open>update_envelope\<close> takes one arm per call: the first call (and so the first
  \<^verbatim>\<open>generate\<close>) after the constructor returns 1 and leaves the phase at Decay, and the
  second call returns 0.7 and leaves the phase at Sustain.
\<close>

theorem zero_attack_decay_two_renders:
  assumes "sr \<noteq> 0"
  shows "(\<exists>v1 v2.
     update_envelope (PolyphonicVoice_init n vel sr
        \<lparr>env_attack = 0, env_decay = 0, env_sustain = 0.7, env_release = rel\<rparr>) fa = Inr (1, v1)
     \<and> envelope_phase v1 = Decay \<and> envelope_value v1 = 1
     \<and> update_envelope v1 fb = Inr (0.7, v2)
     \<and> envelope_phase v2 = Sustain \<and> envelope_value v2 = 0.7)
   \<and> (\<exists>b1 v1 b2 v2.
     generate (PolyphonicVoice_init n vel sr
        \<lparr>env_attack = 0, env_decay = 0, env_sustain = 0.7, env_release = rel\<rparr>) fa wa ca da
       = Inr (b1, v1)
     \<and> envelope_phase v1 = Decay \<and> envelope_value v1 = 1
     \<and> generate v1 fb wb cb db = Inr (b2, v2)
     \<and> envelope_phase v2 = Sustain \<and> envelope_value v2 = 0.7)"
proof
  show "\<exists>v1 v2.
     update_envelope (PolyphonicVoice_init n vel sr
        \<lparr>env_attack = 0, env_decay = 0, env_sustain = 0.7, env_release = rel\<rparr>) fa = Inr (1, v1)
     \<and> envelope_phase v1 = Decay \<and> envelope_value v1 = 1
     \<and> update_envelope v1 fb = Inr (0.7, v2)
     \<and> envelope_phase v2 = Sustain \<and> envelope_value v2 = 0.7"
    using assms
    by (simp add: update_envelope_def PolyphonicVoice_init_def envelope_branch_def)
next
  define v0 where "v0 = PolyphonicVoice_init n vel sr
        \<lparr>env_attack = 0, env_decay = 0, env_sustain = 0.7, env_release = rel\<rparr>"
  have v0: "envelope_phase v0 = Attack" "sample_rate v0 = sr" "attack_time v0 = 0"
    "decay_time v0 = 0" "sustain_level v0 = 0.7"
    by (simp_all add: v0_def PolyphonicVoice_init_def)
  obtain b1 v1 where g1: "generate v0 fa wa ca da = Inr (b1, v1)"
    "envelope_phase v1 = envelope_phase (envelope_branch (advance_timer v0 fa))"
    "envelope_value v1 = envelope_value (envelope_branch (advance_timer v0 fa))"
    "decay_time v1 = decay_time v0" "sustain_level v1 = sustain_level v0"
    "sample_rate v1 = sample_rate v0"
    using generate_envelope [of v0 fa wa ca da] v0 assms by auto
  have e1: "envelope_phase v1 = Decay" "envelope_value v1 = 1"
    using attack_zero_branch [of "advance_timer v0 fa"] v0 g1
    by (simp_all add: advance_timer_frame)
  obtain b2 v2 where g2: "generate v1 fb wb cb db = Inr (b2, v2)"
    "envelope_phase v2 = envelope_phase (envelope_branch (advance_timer v1 fb))"
    "envelope_value v2 = envelope_value (envelope_branch (advance_timer v1 fb))"
    using generate_envelope [of v1 fb wb cb db] e1 g1 v0 assms by auto
  have e2: "envelope_phase v2 = Sustain" "envelope_value v2 = 0.7"
    using decay_zero_branch [of "advance_timer v1 fb"] v0 g1 g2 e1
    by (simp_all add: advance_timer_frame)
  show "\<exists>b1 v1 b2 v2.
     generate (PolyphonicVoice_init n vel sr
        \<lparr>env_attack = 0, env_decay = 0, env_sustain = 0.7, env_release = rel\<rparr>) fa wa ca da
       = Inr (b1, v1)
     \<and> envelope_phase v1 = Decay \<and> envelope_value v1 = 1
     \<and> generate v1 fb wb cb db = Inr (b2, v2)
     \<and> envelope_phase v2 = Sustain \<and> envelope_value v2 = 0.7"
    using g1(1) g2(1) e1 e2 unfolding v0_def by blast
qed

theorem zero_attack_decay_two_renders_witness:
  "(44100::int) \<noteq> 0 \<and>
   (\<exists>v1 v2.
     update_envelope (PolyphonicVoice_init 60 100 44100
        \<lparr>env_attack = 0, env_decay = 0, env_sustain = 0.7, env_release = 0.3\<rparr>) 512 = Inr (1, v1)
     \<and> envelope_phase v1 = Decay \<and> envelope_value v1 = 1
     \<and> update_envelope v1 512 = Inr (0.7, v2)
     \<and> envelope_phase v2 = Sustain \<and> envelope_value v2 = 0.7)
   \<and> (\<exists>b1 v1 b2 v2.
     generate (PolyphonicVoice_init 60 100 44100
        \<lparr>env_attack = 0, env_decay = 0, env_sustain = 0.7, env_release = 0.3\<rparr>) 512 0 1000 0
       = Inr (b1, v1)
     \<and> envelope_phase v1 = Decay \<and> envelope_value v1 = 1
     \<and> generate v1 512 0 1000 0 = Inr (b2, v2)
     \<and> envelope_phase v2 = Sustain \<and> envelope_value v2 = 0.7)"
  using zero_attack_decay_two_renders [where sr = 44100 and n = 60 and vel = 100
      and rel = "0.3" and fa = 512 and fb = 512 and wa = 0 and ca = 1000
      and da = 0 and wb = 0 and cb = 1000 and db = 0]
  by simp

section \<open>The Finished phase\<close>

text \<open>
  What holds of Finished: \<^verbatim>\<open>update_envelope\<close> never leaves it and returns the value it
  finds, and a release with a positive release time enters it with value 0.
\<close>

lemma finished_is_terminal:
  "envelope_phase v = Finished \<Longrightarrow> sample_rate v \<noteq> 0 \<Longrightarrow>
   update_envelope v f = Inr (envelope_value v, advance_timer v f)"
  by (simp add: update_envelope_def envelope_branch_def advance_timer_def)

lemma release_positive_time_finishes_at_zero:
  assumes "envelope_phase v = Release" "0 < release_time v" "sample_rate v \<noteq> 0"
    "update_envelope v f = Inr (e, v1)" "envelope_phase v1 = Finished"
  shows "e = 0 \<and> envelope_value v1 = 0"
  using assms
  by (auto simp: update_envelope_def envelope_branch_def Let_def min_def split: if_splits)

text \<open>
  C5. The value is not pinned at 0 when Finished is reached with release time 0: that
  arm sets the phase only. A voice with attack 0, decay 0, sustain 0.7 and release 0 is
  in Sustain with value 0.7 after two updates; after \<^verbatim>\<open>release()\<close> the next update
  enters Finished and returns 0.7, and so does the update after it.
\<close>

theorem release_time_zero_keeps_stale_value:
  "\<exists>v2 v3 v4.
     update_envelopes (PolyphonicVoice_init 60 100 44100
        \<lparr>env_attack = 0, env_decay = 0, env_sustain = 0.7, env_release = 0\<rparr>) [512, 512] = Inr v2
     \<and> envelope_phase v2 = Sustain \<and> envelope_value v2 = 0.7
     \<and> update_envelope (release v2) 512 = Inr (0.7, v3)
     \<and> envelope_phase v3 = Finished \<and> envelope_value v3 = 0.7
     \<and> update_envelope v3 512 = Inr (0.7, v4)
     \<and> envelope_phase v4 = Finished \<and> envelope_value v4 = 0.7"
  by (simp add: update_envelope_def PolyphonicVoice_init_def envelope_branch_def release_def)

section \<open>The release ramp\<close>

lemma release_step:
  assumes "release_inv u" "0 < release_time u" "0 < sample_rate u"
  shows "\<exists>u1. update_envelope u f = Inr (envelope_value u1, u1)
     \<and> release_inv u1
     \<and> envelope_timer u1 = envelope_timer u + real f / real_of_int (sample_rate u)
     \<and> envelope_value u1 = release_curve u (envelope_timer u1)
     \<and> sustain_level u1 = sustain_level u \<and> release_time u1 = release_time u
     \<and> sample_rate u1 = sample_rate u"
proof -
  have dt: "0 \<le> real f / real_of_int (sample_rate u)"
    using assms(3) by simp
  from assms(1) consider
    (rel) "envelope_phase u = Release"
    | (fin) "envelope_phase u = Finished" "release_time u \<le> envelope_timer u" "envelope_value u = 0"
    unfolding release_inv_def by blast
  then show ?thesis
  proof cases
    case rel
    then show ?thesis
      using assms(2,3)
      by (auto simp: update_envelope_def envelope_branch_def Let_def release_inv_def
          release_curve_def min_def)
  next
    case fin
    define t where "t = envelope_timer u + real f / real_of_int (sample_rate u)"
    have t: "release_time u \<le> t"
      using fin(2) dt by (simp add: t_def)
    have upd: "update_envelope u f = Inr (envelope_value u, u\<lparr>envelope_timer := t\<rparr>)"
      using fin(1) assms(3)
      by (simp add: update_envelope_def envelope_branch_def Let_def t_def)
    have "release_curve u t = 0"
      using t assms(2) by (simp add: release_curve_def min_def)
    with upd t fin show ?thesis
      by (intro exI [of _ "u\<lparr>envelope_timer := t\<rparr>"])
        (simp add: release_inv_def release_curve_def t_def)
  qed
qed

lemma release_run:
  assumes "release_inv u" "0 < release_time u" "0 < sample_rate u" "fs \<noteq> []"
  shows "\<exists>u1. update_envelopes u fs = Inr u1 \<and> release_inv u1
     \<and> envelope_value u1 =
         release_curve u (envelope_timer u + real (sum_list fs) / real_of_int (sample_rate u))"
  using assms
proof (induction fs arbitrary: u)
  case Nil
  then show ?case by simp
next
  case (Cons f fs)
  obtain u1 where u1: "update_envelope u f = Inr (envelope_value u1, u1)" "release_inv u1"
      "envelope_timer u1 = envelope_timer u + real f / real_of_int (sample_rate u)"
      "envelope_value u1 = release_curve u (envelope_timer u1)"
      "sustain_level u1 = sustain_level u" "release_time u1 = release_time u"
      "sample_rate u1 = sample_rate u"
    using release_step [OF Cons.prems(1-3)] by blast
  show ?case
  proof (cases "fs = []")
    case True
    with u1 show ?thesis by simp
  next
    case False
    have "0 < release_time u1" "0 < sample_rate u1"
      using u1 Cons.prems by simp_all
    from Cons.IH [OF u1(2) this False]
    obtain u2 where u2: "update_envelopes u1 fs = Inr u2" "release_inv u2"
      "envelope_value u2 =
         release_curve u1 (envelope_timer u1 + real (sum_list fs) / real_of_int (sample_rate u1))"
      by blast
    have "release_curve u1 = release_curve u"
      by (simp add: fun_eq_iff release_curve_def u1)
    with u1 u2 show ?thesis
      by (simp add: add_divide_distrib algebra_simps)
  qed
qed

text \<open>
  C6. \<^verbatim>\<open>release()\<close> puts a voice of any phase in Release with the timer at 0. With a
  positive release time (and sample rate), after any non-empty list of updates of total
  duration \<open>t = sum fs / sample_rate\<close> the envelope value is
  \<open>sustain_level * (1 - min 1 (t / release_time))\<close>: computed from the sustain level
  of the voice, whatever the envelope value was when \<^verbatim>\<open>release()\<close> was called.
\<close>

theorem release_ramp:
  assumes "0 < release_time v" "0 < sample_rate v" "fs \<noteq> []"
  shows "envelope_phase (release v) = Release \<and> envelope_timer (release v) = 0 \<and>
    (\<exists>v1. update_envelopes (release v) fs = Inr v1 \<and>
       envelope_value v1 =
         sustain_level v *
           (1 - min 1 ((real (sum_list fs) / real_of_int (sample_rate v)) / release_time v)))"
proof -
  have "release_inv (release v)" "0 < release_time (release v)" "0 < sample_rate (release v)"
    using assms by (simp_all add: release_inv_def release_def)
  from release_run [OF this assms(3)]
  show ?thesis
    by (auto simp: release_def release_curve_def)
qed

theorem release_ramp_witness:
  "0 < release_time (PolyphonicVoice_init 69 127 44100
         \<lparr>env_attack = 0.01, env_decay = 0.1, env_sustain = 0.7, env_release = 0.3\<rparr>)
   \<and> 0 < sample_rate (PolyphonicVoice_init 69 127 44100
         \<lparr>env_attack = 0.01, env_decay = 0.1, env_sustain = 0.7, env_release = 0.3\<rparr>)
   \<and> [4410, 4410] \<noteq> ([] :: nat list)
   \<and> (\<exists>v1. update_envelopes (release (PolyphonicVoice_init 69 127 44100
         \<lparr>env_attack = 0.01, env_decay = 0.1, env_sustain = 0.7, env_release = 0.3\<rparr>))
           [4410, 4410] = Inr v1
        \<and> envelope_value v1 = 0.7 * (1 - min 1 ((8820 / 44100) / 0.3)))"
  using release_ramp [of "PolyphonicVoice_init 69 127 44100
         \<lparr>env_attack = 0.01, env_decay = 0.1, env_sustain = 0.7, env_release = 0.3\<rparr>"
      "[4410, 4410]"]
  by (simp add: PolyphonicVoice_init_def release_def)

section \<open>Frequency 0\<close>

lemma oscillator_zero_increment:
  "oscillator w ph 0 f = replicate f (hd (oscillator w ph 0 (Suc 0)))"
  by (simp add: oscillator_def Let_def map_replicate_const)

text \<open>
  A voice whose frequency attribute is 0 has detuned frequency 0, and \<^verbatim>\<open>generate\<close>
  does not return silence for it: with the Sawtooth waveform, the filter bypassed, attack
  0 and velocity 127 the block of two frames is not the zero block.
\<close>

theorem zero_frequency_counterexample:
  "\<not> (frequency ((PolyphonicVoice_init 69 127 44100
           \<lparr>env_attack = 0, env_decay = 0, env_sustain = 0.7, env_release = 0.3\<rparr>)
           \<lparr>frequency := 0\<rparr>) * 2 powr (0 / 1200) \<le> 0
       \<longrightarrow> fst (projr (generate ((PolyphonicVoice_init 69 127 44100
           \<lparr>env_attack = 0, env_decay = 0, env_sustain = 0.7, env_release = 0.3\<rparr>)
           \<lparr>frequency := 0\<rparr>) (Suc (Suc 0)) 2 8000 0)) = replicate (Suc (Suc 0)) 0)"
  by (simp add: generate_def PolyphonicVoice_init_def oscillator_def py_fmod_def
      update_envelope_def envelope_branch_def)

text \<open>
  C7, amended. \<^verbatim>\<open>generate\<close> has no clamp on the frequency. The detuned frequency of a
  voice built by either constructor is positive. For an unfinished voice whose frequency
  attribute is 0 (sample rate not 0, filter bypassed) the phase does not advance and
  every sample of the block is the waveform's value at the current phase times envelope
  times velocity.
\<close>

theorem no_frequency_clamp:
  "0 < frequency (PolyphonicVoice_init n vel sr params) * 2 powr (detune / 1200) \<and>
   0 < frequency (MPKVoice_init n vel sr params) * 2 powr (detune / 1200) \<and>
   (envelope_phase v \<noteq> Finished \<and> sample_rate v \<noteq> 0 \<and> frequency v = 0 \<and>
      \<not> (c < 6000 \<and> (w = 1 \<or> w = 2)) \<longrightarrow>
    (\<exists>e v1. generate v f w c d =
         Inr (replicate f (hd (oscillator w (phase v) 0 (Suc 0)) * (e * velocity v)), v1)
       \<and> update_envelope v f = Inr (e, v1\<lparr>phase := phase v\<rparr>)
       \<and> phase v1 = py_fmod (phase v) (2 * pi)))"
proof (intro conjI impI)
  show "0 < frequency (PolyphonicVoice_init n vel sr params) * 2 powr (detune / 1200)"
    by (simp add: PolyphonicVoice_init_def)
  show "0 < frequency (MPKVoice_init n vel sr params) * 2 powr (detune / 1200)"
    by (simp add: MPKVoice_init_def)
next
  assume h: "envelope_phase v \<noteq> Finished \<and> sample_rate v \<noteq> 0 \<and> frequency v = 0 \<and>
      \<not> (c < 6000 \<and> (w = 1 \<or> w = 2))"
  define X where "X = envelope_branch (advance_timer v f)"
  have "generate v f w c d =
      Inr (map (\<lambda>x. x * (envelope_value X * velocity v)) (oscillator w (phase v) 0 f),
           X\<lparr>phase := py_fmod (phase v) (2 * pi)\<rparr>)"
    using h
    by (auto simp: generate_def Let_def update_envelope_advance envelope_commute
        envelope_branch_frame advance_timer_frame X_def)
  moreover have "map (\<lambda>x. x * (envelope_value X * velocity v)) (oscillator w (phase v) 0 f)
      = replicate f (hd (oscillator w (phase v) 0 (Suc 0)) * (envelope_value X * velocity v))"
    by (subst oscillator_zero_increment) simp
  moreover have "update_envelope v f = Inr (envelope_value X, X)"
    using h by (simp add: update_envelope_advance X_def)
  moreover have "(X\<lparr>phase := py_fmod (phase v) (2 * pi)\<rparr>)\<lparr>phase := phase v\<rparr> = X"
    by (simp add: X_def envelope_branch_frame advance_timer_frame)
  ultimately show "\<exists>e v1. generate v f w c d =
         Inr (replicate f (hd (oscillator w (phase v) 0 (Suc 0)) * (e * velocity v)), v1)
       \<and> update_envelope v f = Inr (e, v1\<lparr>phase := phase v\<rparr>)
       \<and> phase v1 = py_fmod (phase v) (2 * pi)"
    by (intro exI [of _ "envelope_value X"] exI [of _ "X\<lparr>phase := py_fmod (phase v) (2 * pi)\<rparr>"])
      simp
qed

theorem no_frequency_clamp_witness:
  "envelope_phase ((PolyphonicVoice_init 69 127 44100
           \<lparr>env_attack = 0, env_decay = 0, env_sustain = 0.7, env_release = 0.3\<rparr>)
           \<lparr>frequency := 0\<rparr>) \<noteq> Finished
   \<and> sample_rate ((PolyphonicVoice_init 69 127 44100
           \<lparr>env_attack = 0, env_decay = 0, env_sustain = 0.7, env_release = 0.3\<rparr>)
           \<lparr>frequency := 0\<rparr>) \<noteq> 0
   \<and> frequency ((PolyphonicVoice_init 69 127 44100
           \<lparr>env_attack = 0, env_decay = 0, env_sustain = 0.7, env_release = 0.3\<rparr>)
           \<lparr>frequency := 0\<rparr>) = 0
   \<and> \<not> ((8000::real) < 6000 \<and> ((2::int) = 1 \<or> (2::int) = 2))
   \<and> (\<exists>e v1. generate ((PolyphonicVoice_init 69 127 44100
           \<lparr>env_attack = 0, env_decay = 0, env_sustain = 0.7, env_release = 0.3\<rparr>)
           \<lparr>frequency := 0\<rparr>) 2 2 8000 0 = Inr (replicate 2 (- e), v1) \<and> e = 1)"
  using no_frequency_clamp [of 69 127 44100
      "\<lparr>env_attack = 0, env_decay = 0, env_sustain = 0.7, env_release = 0.3\<rparr>" 0
      "(PolyphonicVoice_init 69 127 44100
           \<lparr>env_attack = 0, env_decay = 0, env_sustain = 0.7, env_release = 0.3\<rparr>)
           \<lparr>frequency := 0\<rparr>" 8000 2 2 0]
  by (auto simp: PolyphonicVoice_init_def oscillator_def py_fmod_def update_envelope_def
      envelope_branch_def)

section \<open>The voice pool\<close>

lemma note_on_pool:
  "note_on self k vel =
     (case pool_note_on (fp_max_voices self) k
             (PolyphonicVoice_init k vel (fp_sample_rate self) (get_envelope_params self))
             (fp_voices self) of
        Inl e \<Rightarrow> Inl e
      | Inr d \<Rightarrow> Inr (self\<lparr>fp_voices := d\<rparr>))"
  by (simp add: note_on_def pool_note_on_def Let_def split: sum.splits)

lemma MPK_note_on_pool:
  "MPK_note_on self k vel =
     (case pool_note_on (mpk_max_voices self) k
             (MPKVoice_init k vel (mpk_sample_rate self) (get_synth_params self))
             (mpk_voices self) of
        Inl e \<Rightarrow> Inl e
      | Inr d \<Rightarrow> Inr (self\<lparr>mpk_voices := d\<rparr>))"
  by (simp add: MPK_note_on_def pool_note_on_def Let_def split: sum.splits)

lemma py_min_nonempty: "xs \<noteq> [] \<Longrightarrow> py_min xs = Inr (Min (set xs))"
  by (cases xs) (simp_all add: Min.set_eq_fold [symmetric])

lemma update_absent: "k \<notin> fst ` set d \<Longrightarrow> AList.update k v d = d @ [(k, v)]"
  by (induction d) auto

lemma length_update_le: "length (AList.update k v d) \<le> Suc (length d)"
  by (induction d) auto

lemma length_delete_less: "k \<in> fst ` set d \<Longrightarrow> length (AList.delete k d) < length d"
proof -
  assume "k \<in> fst ` set d"
  then obtain v where "(k, v) \<in> set d" by auto
  then show ?thesis
    unfolding AList.delete_eq by (rule length_filter_less) simp
qed

lemma length_delete_distinct:
  "distinct (map fst d) \<Longrightarrow> k \<in> fst ` set d \<Longrightarrow> Suc (length (AList.delete k d)) = length d"
  by (induction d) (auto simp: AList.delete_id)

lemma length_map_entry: "length (AList.map_entry k g d) = length d"
  by (induction d) auto

lemma pool_note_on_inv:
  assumes "pool_inv mx d" "1 \<le> mx"
  shows "\<exists>d1. pool_note_on mx k nv d = Inr d1 \<and> pool_inv mx d1"
proof -
  define d0 where "d0 = (if dict_contains k d then AList.delete k d else d)"
  have d0: "distinct (map fst d0)" "int (length d0) \<le> mx"
    using assms(1) AList.length_delete_le [of k d]
    by (auto simp: d0_def pool_inv_def AList.distinct_delete)
  show ?thesis
  proof (cases "mx \<le> int (length d0)")
    case True
    then have ne: "map fst d0 \<noteq> []"
      using assms(2) by auto
    define m where "m = Min (set (map fst d0))"
    have "m \<in> set (map fst d0)"
      unfolding m_def using ne by (intro Min_in) auto
    then have "length (AList.delete m d0) < length d0"
      by (intro length_delete_less) simp
    then have "int (length (AList.update k nv (AList.delete m d0))) \<le> mx"
      using length_update_le [of k nv "AList.delete m d0"] d0(2) by linarith
    moreover have "distinct (map fst (AList.update k nv (AList.delete m d0)))"
      using d0(1) by (simp add: AList.distinct_update AList.distinct_delete)
    moreover have "pool_note_on mx k nv d = Inr (AList.update k nv (AList.delete m d0))"
      using True py_min_nonempty [OF ne]
      by (simp add: pool_note_on_def d0_def [symmetric] m_def Let_def)
    ultimately show ?thesis
      by (simp add: pool_inv_def)
  next
    case False
    then have "int (length (AList.update k nv d0)) \<le> mx"
      using length_update_le [of k nv d0] by linarith
    moreover have "distinct (map fst (AList.update k nv d0))"
      using d0(1) by (simp add: AList.distinct_update)
    moreover have "pool_note_on mx k nv d = Inr (AList.update k nv d0)"
      using False by (simp add: pool_note_on_def d0_def [symmetric] Let_def)
    ultimately show ?thesis
      by (simp add: pool_inv_def)
  qed
qed

lemma pool_note_on_evicts:
  assumes "\<not> dict_contains k d" "mx \<le> int (length d)" "d \<noteq> []"
  shows "pool_note_on mx k nv d = Inr (AList.delete (Min (set (map fst d))) d @ [(k, nv)])"
proof -
  have "k \<notin> fst ` set (AList.delete (Min (set (map fst d))) d)"
    using assms(1) AList.dom_delete_subset [of "Min (set (map fst d))" d]
    by (auto simp: dict_contains_def)
  then show ?thesis
    using assms py_min_nonempty [of "map fst d"]
    by (simp add: pool_note_on_def Let_def update_absent)
qed

lemma pool_note_on_retrigger:
  assumes "dict_contains k d" "int (length d) \<le> mx"
  shows "pool_note_on mx k nv d = Inr (AList.delete k d @ [(k, nv)])"
proof -
  have "length (AList.delete k d) < length d"
    using assms(1) by (intro length_delete_less) (simp add: dict_contains_def)
  then have "\<not> mx \<le> int (length (AList.delete k d))"
    using assms(2) by linarith
  then show ?thesis
    using assms(1)
    by (simp add: pool_note_on_def Let_def update_absent AList.delete_notin_dom)
qed

section \<open>The mixing loop\<close>

lemma mix_voices_keys:
  "map fst (case_sum snd (\<lambda>x. snd (snd x)) (mix_voices f w c d vs a r)) = map fst vs"
proof (induction vs arbitrary: a r)
  case Nil
  show ?case by simp
next
  case (Cons p vs)
  obtain k v where p: "p = (k, v)" by (cases p)
  show ?case
  proof (cases "is_finished v")
    case True
    with Cons [of a "r @ [k]"] show ?thesis
      unfolding p by (auto split: sum.splits prod.splits)
  next
    case False
    show ?thesis
    proof (cases "generate v f w c d")
      case (Inl e)
      with False show ?thesis unfolding p by simp
    next
      case (Inr x)
      obtain voice_audio v1 where x: "x = (voice_audio, v1)" by (cases x)
      from Cons [of "map2 (+) a voice_audio" r] False Inr show ?thesis
        unfolding p x by (auto split: sum.splits prod.splits)
    qed
  qed
qed

lemma mix_voices_length:
  "length a = f \<Longrightarrow>
   (case mix_voices f w c d vs a r of Inl x \<Rightarrow> True | Inr x \<Rightarrow> length (fst x) = f)"
proof (induction vs arbitrary: a r)
  case Nil
  then show ?case by simp
next
  case (Cons p vs)
  obtain k v where p: "p = (k, v)" by (cases p)
  show ?case
  proof (cases "is_finished v")
    case True
    with Cons.IH [of a "r @ [k]"] Cons.prems show ?thesis
      unfolding p by (auto split: sum.splits prod.splits)
  next
    case False
    show ?thesis
    proof (cases "generate v f w c d")
      case (Inl e)
      with False show ?thesis unfolding p by simp
    next
      case (Inr x)
      obtain voice_audio v1 where x: "x = (voice_audio, v1)" by (cases x)
      have "length (map2 (+) a voice_audio) = f"
        using generate_length [of v f w c d voice_audio v1] Inr x Cons.prems by simp
      from Cons.IH [OF this, of r] False Inr show ?thesis
        unfolding p x by (auto split: sum.splits prod.splits)
    qed
  qed
qed

lemma mix_voices_raises_iff:
  "isl (mix_voices f w c d vs a r) \<longleftrightarrow>
   (\<exists>p \<in> set vs. \<not> is_finished (snd p) \<and> sample_rate (snd p) = 0)"
proof (induction vs arbitrary: a r)
  case Nil
  show ?case by simp
next
  case (Cons p vs)
  obtain k v where p: "p = (k, v)" by (cases p)
  show ?case
  proof (cases "is_finished v")
    case True
    with Cons [of a "r @ [k]"] show ?thesis
      unfolding p by (auto split: sum.splits prod.splits)
  next
    case False
    show ?thesis
    proof (cases "generate v f w c d")
      case (Inl e)
      with False generate_raises_iff [of v f w c d] show ?thesis
        unfolding p by auto
    next
      case (Inr x)
      obtain voice_audio v1 where x: "x = (voice_audio, v1)" by (cases x)
      have "sample_rate v \<noteq> 0"
        using generate_raises_iff [of v f w c d] Inr False by (auto simp: is_finished_def)
      with Cons [of "map2 (+) a voice_audio" r] False Inr show ?thesis
        unfolding p x by (auto split: sum.splits prod.splits)
    qed
  qed
qed

lemma MPK_mix_voices_eq: "MPK_mix_voices f w c d vs a r = mix_voices f w c d vs a r"
proof (induction vs arbitrary: a r)
  case Nil
  show ?case by simp
next
  case (Cons p vs)
  obtain k v where p: "p = (k, v)" by (cases p)
  show ?case
    unfolding p
    by (simp add: Cons MPKVoice_generate_eq MPKVoice_is_finished_eq
        split: sum.splits prod.splits)
qed

lemma fold_delete_pool:
  "distinct (map fst d) \<Longrightarrow>
   distinct (map fst (fold AList.delete ks d)) \<and> length (fold AList.delete ks d) \<le> length d"
proof (induction ks arbitrary: d)
  case Nil
  then show ?case by simp
next
  case (Cons k ks)
  from Cons.IH [of "AList.delete k d"] Cons.prems AList.length_delete_le [of k d]
  show ?case
    by (auto simp: AList.distinct_delete)
qed

lemma pool_inv_keys:
  "map fst d1 = map fst d \<Longrightarrow> pool_inv mx d \<Longrightarrow> pool_inv mx d1"
  unfolding pool_inv_def by (metis length_map)

lemma render_pool:
  assumes "pool_inv mx (fp_voices s)"
  shows "case render s f of
           Inl x \<Rightarrow> pool_inv mx (fp_voices (snd x)) \<and> fp_max_voices (snd x) = fp_max_voices s
         | Inr x \<Rightarrow> pool_inv mx (fp_voices (snd x)) \<and> fp_max_voices (snd x) = fp_max_voices s"
proof (cases "mix_voices f (fp_waveform s) (fp_filter_cutoff s) (fp_detune s)
                (fp_voices s) (replicate f 0) []")
  case (Inl x)
  obtain e vs where x: "x = (e, vs)" by (cases x)
  have "map fst vs = map fst (fp_voices s)"
    using mix_voices_keys [of f "fp_waveform s" "fp_filter_cutoff s" "fp_detune s"
        "fp_voices s" "replicate f 0" "[]"] Inl x by simp
  then show ?thesis
    using assms Inl x by (simp add: render_def pool_inv_keys)
next
  case (Inr x)
  obtain a r vs where x: "x = (a, r, vs)" by (cases x)
  have "map fst vs = map fst (fp_voices s)"
    using mix_voices_keys [of f "fp_waveform s" "fp_filter_cutoff s" "fp_detune s"
        "fp_voices s" "replicate f 0" "[]"] Inr x by simp
  then have "pool_inv mx vs"
    using assms by (rule pool_inv_keys)
  then have "pool_inv mx (fold AList.delete r vs)"
    using fold_delete_pool [of vs r] by (auto simp: pool_inv_def)
  then show ?thesis
    using Inr x by (simp add: render_def Let_def)
qed

lemma audio_callback_pool:
  assumes "pool_inv mx (fp_voices s)"
  shows "pool_inv mx (fp_voices (snd (audio_callback s f))) \<and>
         fp_max_voices (snd (audio_callback s f)) = fp_max_voices s"
  using render_pool [OF assms, of f]
  by (auto simp: audio_callback_def split: sum.splits prod.splits)

lemma MPK_render_pool:
  assumes "pool_inv mx (mpk_voices s)"
  shows "case MPK_render s f of
           Inl x \<Rightarrow> pool_inv mx (mpk_voices (snd x)) \<and> mpk_max_voices (snd x) = mpk_max_voices s
         | Inr x \<Rightarrow> pool_inv mx (mpk_voices (snd x)) \<and> mpk_max_voices (snd x) = mpk_max_voices s"
proof (cases "mix_voices f (mpk_waveform s) (mpk_filter_cutoff s) (mpk_detune s)
                (mpk_voices s) (replicate f 0) []")
  case (Inl x)
  obtain e vs where x: "x = (e, vs)" by (cases x)
  have "map fst vs = map fst (mpk_voices s)"
    using mix_voices_keys [of f "mpk_waveform s" "mpk_filter_cutoff s" "mpk_detune s"
        "mpk_voices s" "replicate f 0" "[]"] Inl x by simp
  then show ?thesis
    using assms Inl x by (simp add: MPK_render_def MPK_mix_voices_eq pool_inv_keys)
next
  case (Inr x)
  obtain a r vs where x: "x = (a, r, vs)" by (cases x)
  have "map fst vs = map fst (mpk_voices s)"
    using mix_voices_keys [of f "mpk_waveform s" "mpk_filter_cutoff s" "mpk_detune s"
        "mpk_voices s" "replicate f 0" "[]"] Inr x by simp
  then have "pool_inv mx vs"
    using assms by (rule pool_inv_keys)
  then have "pool_inv mx (fold AList.delete r vs)"
    using fold_delete_pool [of vs r] by (auto simp: pool_inv_def)
  then show ?thesis
    using Inr x by (simp add: MPK_render_def MPK_mix_voices_eq Let_def)
qed

lemma MPK_audio_callback_pool:
  assumes "pool_inv mx (mpk_voices s)"
  shows "pool_inv mx (mpk_voices (snd (MPK_audio_callback s f))) \<and>
         mpk_max_voices (snd (MPK_audio_callback s f)) = mpk_max_voices s"
  using MPK_render_pool [OF assms, of f]
  by (auto simp: MPK_audio_callback_def split: sum.splits prod.splits)

lemma note_off_pool:
  "pool_inv mx (fp_voices s) \<Longrightarrow>
   pool_inv mx (fp_voices (note_off s k)) \<and> fp_max_voices (note_off s k) = fp_max_voices s"
  by (simp add: note_off_def pool_inv_def AList.distinct_map_entry length_map_entry)

lemma MPK_note_off_pool:
  "pool_inv mx (mpk_voices s) \<Longrightarrow>
   pool_inv mx (mpk_voices (MPK_note_off s k)) \<and>
   mpk_max_voices (MPK_note_off s k) = mpk_max_voices s"
  by (simp add: MPK_note_off_def pool_inv_def AList.distinct_map_entry length_map_entry)

lemma run_calls_pool:
  assumes "pool_inv (fp_max_voices s) (fp_voices s)" "1 \<le> fp_max_voices s"
  shows "\<exists>s1. run_calls s calls = Inr s1 \<and> pool_inv (fp_max_voices s) (fp_voices s1)
           \<and> fp_max_voices s1 = fp_max_voices s"
  using assms
proof (induction calls arbitrary: s)
  case Nil
  then show ?case by simp
next
  case (Cons call calls)
  show ?case
  proof (cases call)
    case (NoteOn k vel)
    obtain d1 where d1: "pool_note_on (fp_max_voices s) k
        (PolyphonicVoice_init k vel (fp_sample_rate s) (get_envelope_params s)) (fp_voices s) = Inr d1"
      "pool_inv (fp_max_voices s) d1"
      using pool_note_on_inv [OF Cons.prems] by blast
    then have "note_on s k vel = Inr (s\<lparr>fp_voices := d1\<rparr>)"
      by (simp add: note_on_pool)
    with Cons.IH [of "s\<lparr>fp_voices := d1\<rparr>"] d1(2) Cons.prems(2) NoteOn show ?thesis
      by simp
  next
    case (NoteOff k)
    from note_off_pool [OF Cons.prems(1), of k]
      Cons.IH [of "note_off s k"] Cons.prems(2) NoteOff
    show ?thesis by simp
  next
    case (AudioCallback f)
    from audio_callback_pool [OF Cons.prems(1), of f]
      Cons.IH [of "snd (audio_callback s f)"] Cons.prems(2) AudioCallback
    show ?thesis by simp
  qed
qed

lemma MPK_run_calls_pool:
  assumes "pool_inv (mpk_max_voices s) (mpk_voices s)" "1 \<le> mpk_max_voices s"
  shows "\<exists>s1. MPK_run_calls s calls = Inr s1 \<and> pool_inv (mpk_max_voices s) (mpk_voices s1)
           \<and> mpk_max_voices s1 = mpk_max_voices s"
  using assms
proof (induction calls arbitrary: s)
  case Nil
  then show ?case by simp
next
  case (Cons call calls)
  show ?case
  proof (cases call)
    case (NoteOn k vel)
    obtain d1 where d1: "pool_note_on (mpk_max_voices s) k
        (MPKVoice_init k vel (mpk_sample_rate s) (get_synth_params s)) (mpk_voices s) = Inr d1"
      "pool_inv (mpk_max_voices s) d1"
      using pool_note_on_inv [OF Cons.prems] by blast
    then have "MPK_note_on s k vel = Inr (s\<lparr>mpk_voices := d1\<rparr>)"
      by (simp add: MPK_note_on_pool)
    with Cons.IH [of "s\<lparr>mpk_voices := d1\<rparr>"] d1(2) Cons.prems(2) NoteOn show ?thesis
      by simp
  next
    case (NoteOff k)
    from MPK_note_off_pool [OF Cons.prems(1), of k]
      Cons.IH [of "MPK_note_off s k"] Cons.prems(2) NoteOff
    show ?thesis by simp
  next
    case (AudioCallback f)
    from MPK_audio_callback_pool [OF Cons.prems(1), of f]
      Cons.IH [of "snd (MPK_audio_callback s f)"] Cons.prems(2) AudioCallback
    show ?thesis by simp
  qed
qed

section \<open>Pool invariant, eviction and retrigger\<close>

text \<open>
  C1. Every sequence of \<^verbatim>\<open>note_on\<close>, \<^verbatim>\<open>note_off\<close> and \<^verbatim>\<open>audio_callback\<close> calls (the
  callback prunes the finished voices) runs without error and keeps the pool with at
  most one voice per note and at most \<^verbatim>\<open>max_voices\<close> voices: from any state that
  satisfies this with \<^verbatim>\<open>max_voices\<close> at least 1, and so from the initial states, where
  the bound is 12 for \<^verbatim>\<open>FourPotMIDISynth\<close> and 16 for \<^verbatim>\<open>MPKOnlySynth\<close>.
\<close>

theorem voice_pool_invariant:
  "(pool_inv (fp_max_voices s) (fp_voices s) \<and> 1 \<le> fp_max_voices s \<longrightarrow>
      (\<exists>s1. run_calls s calls = Inr s1 \<and> distinct (map fst (fp_voices s1))
         \<and> int (length (fp_voices s1)) \<le> fp_max_voices s
         \<and> fp_max_voices s1 = fp_max_voices s))
   \<and> (pool_inv (mpk_max_voices t) (mpk_voices t) \<and> 1 \<le> mpk_max_voices t \<longrightarrow>
      (\<exists>t1. MPK_run_calls t calls = Inr t1 \<and> distinct (map fst (mpk_voices t1))
         \<and> int (length (mpk_voices t1)) \<le> mpk_max_voices t
         \<and> mpk_max_voices t1 = mpk_max_voices t))
   \<and> (\<exists>s1. run_calls (FourPotMIDISynth_init sr) calls = Inr s1
         \<and> distinct (map fst (fp_voices s1)) \<and> length (fp_voices s1) \<le> 12)
   \<and> (\<exists>t1. MPK_run_calls (MPKOnlySynth_init sr) calls = Inr t1
         \<and> distinct (map fst (mpk_voices t1)) \<and> length (mpk_voices t1) \<le> 16)"
proof (intro conjI impI)
  assume "pool_inv (fp_max_voices s) (fp_voices s) \<and> 1 \<le> fp_max_voices s"
  then show "\<exists>s1. run_calls s calls = Inr s1 \<and> distinct (map fst (fp_voices s1))
         \<and> int (length (fp_voices s1)) \<le> fp_max_voices s
         \<and> fp_max_voices s1 = fp_max_voices s"
    using run_calls_pool [of s calls] by (auto simp: pool_inv_def)
next
  assume "pool_inv (mpk_max_voices t) (mpk_voices t) \<and> 1 \<le> mpk_max_voices t"
  then show "\<exists>t1. MPK_run_calls t calls = Inr t1 \<and> distinct (map fst (mpk_voices t1))
         \<and> int (length (mpk_voices t1)) \<le> mpk_max_voices t
         \<and> mpk_max_voices t1 = mpk_max_voices t"
    using MPK_run_calls_pool [of t calls] by (auto simp: pool_inv_def)
next
  show "\<exists>s1. run_calls (FourPotMIDISynth_init sr) calls = Inr s1
         \<and> distinct (map fst (fp_voices s1)) \<and> length (fp_voices s1) \<le> 12"
    using run_calls_pool [of "FourPotMIDISynth_init sr" calls]
    by (auto simp: pool_inv_def FourPotMIDISynth_init_def)
next
  show "\<exists>t1. MPK_run_calls (MPKOnlySynth_init sr) calls = Inr t1
         \<and> distinct (map fst (mpk_voices t1)) \<and> length (mpk_voices t1) \<le> 16"
    using MPK_run_calls_pool [of "MPKOnlySynth_init sr" calls]
    by (auto simp: pool_inv_def MPKOnlySynth_init_def)
qed

theorem voice_pool_invariant_witness:
  "pool_inv (fp_max_voices (FourPotMIDISynth_init 44100)) (fp_voices (FourPotMIDISynth_init 44100))
   \<and> 1 \<le> fp_max_voices (FourPotMIDISynth_init 44100)
   \<and> (\<exists>s1. run_calls (FourPotMIDISynth_init 44100)
              [NoteOn 60 100, NoteOn 60 90, NoteOff 60, AudioCallback 2] = Inr s1
         \<and> distinct (map fst (fp_voices s1)) \<and> int (length (fp_voices s1)) \<le> 12
         \<and> fp_max_voices s1 = 12)
   \<and> pool_inv (mpk_max_voices (MPKOnlySynth_init 44100)) (mpk_voices (MPKOnlySynth_init 44100))
   \<and> 1 \<le> mpk_max_voices (MPKOnlySynth_init 44100)
   \<and> (\<exists>t1. MPK_run_calls (MPKOnlySynth_init 44100)
              [NoteOn 60 100, NoteOn 60 90, NoteOff 60, AudioCallback 2] = Inr t1
         \<and> distinct (map fst (mpk_voices t1)) \<and> int (length (mpk_voices t1)) \<le> 16
         \<and> mpk_max_voices t1 = 16)"
proof -
  have fp: "pool_inv (fp_max_voices (FourPotMIDISynth_init 44100))
              (fp_voices (FourPotMIDISynth_init 44100))"
    "1 \<le> fp_max_voices (FourPotMIDISynth_init 44100)"
    "fp_max_voices (FourPotMIDISynth_init 44100) = 12"
    by (simp_all add: FourPotMIDISynth_init_def pool_inv_def)
  have mpk: "pool_inv (mpk_max_voices (MPKOnlySynth_init 44100))
              (mpk_voices (MPKOnlySynth_init 44100))"
    "1 \<le> mpk_max_voices (MPKOnlySynth_init 44100)"
    "mpk_max_voices (MPKOnlySynth_init 44100) = 16"
    by (simp_all add: MPKOnlySynth_init_def pool_inv_def)
  show ?thesis
    using voice_pool_invariant [of "FourPotMIDISynth_init 44100"
        "[NoteOn 60 100, NoteOn 60 90, NoteOff 60, AudioCallback 2]"
        "MPKOnlySynth_init 44100" 44100] fp mpk
    by metis
qed

text \<open>
  C2. When \<^verbatim>\<open>note_on\<close> is called for a note that is not in the pool while the
  (non-empty) pool holds \<^verbatim>\<open>max_voices\<close> voices or more, the new pool is the old one
  without the entry of the numerically smallest note, followed by the new voice. With
  \<^verbatim>\<open>max_voices\<close> 2, the calls NoteOn(60,100), NoteOn(64,100), NoteOn(67,100) leave the
  notes 64 and 67.
\<close>

theorem eviction_of_smallest_note:
  "(\<not> dict_contains n (fp_voices s) \<and> fp_max_voices s \<le> int (length (fp_voices s)) \<and>
      fp_voices s \<noteq> [] \<longrightarrow>
      note_on s n vel =
        Inr (s\<lparr>fp_voices :=
               AList.delete (Min (set (map fst (fp_voices s)))) (fp_voices s) @
               [(n, PolyphonicVoice_init n vel (fp_sample_rate s) (get_envelope_params s))]\<rparr>))
   \<and> (\<not> dict_contains n (mpk_voices t) \<and> mpk_max_voices t \<le> int (length (mpk_voices t)) \<and>
      mpk_voices t \<noteq> [] \<longrightarrow>
      MPK_note_on t n vel =
        Inr (t\<lparr>mpk_voices :=
               AList.delete (Min (set (map fst (mpk_voices t)))) (mpk_voices t) @
               [(n, MPKVoice_init n vel (mpk_sample_rate t) (get_synth_params t))]\<rparr>))
   \<and> (\<exists>s1. run_calls ((FourPotMIDISynth_init sr)\<lparr>fp_max_voices := 2\<rparr>)
               [NoteOn 60 100, NoteOn 64 100, NoteOn 67 100] = Inr s1
          \<and> map fst (fp_voices s1) = [64, 67])
   \<and> (\<exists>t1. MPK_run_calls ((MPKOnlySynth_init sr)\<lparr>mpk_max_voices := 2\<rparr>)
               [NoteOn 60 100, NoteOn 64 100, NoteOn 67 100] = Inr t1
          \<and> map fst (mpk_voices t1) = [64, 67])"
proof (intro conjI impI)
  assume "\<not> dict_contains n (fp_voices s) \<and> fp_max_voices s \<le> int (length (fp_voices s)) \<and>
      fp_voices s \<noteq> []"
  then show "note_on s n vel =
        Inr (s\<lparr>fp_voices :=
               AList.delete (Min (set (map fst (fp_voices s)))) (fp_voices s) @
               [(n, PolyphonicVoice_init n vel (fp_sample_rate s) (get_envelope_params s))]\<rparr>)"
    by (simp add: note_on_pool pool_note_on_evicts)
next
  assume "\<not> dict_contains n (mpk_voices t) \<and> mpk_max_voices t \<le> int (length (mpk_voices t)) \<and>
      mpk_voices t \<noteq> []"
  then show "MPK_note_on t n vel =
        Inr (t\<lparr>mpk_voices :=
               AList.delete (Min (set (map fst (mpk_voices t)))) (mpk_voices t) @
               [(n, MPKVoice_init n vel (mpk_sample_rate t) (get_synth_params t))]\<rparr>)"
    by (simp add: MPK_note_on_pool pool_note_on_evicts)
next
  show "\<exists>s1. run_calls ((FourPotMIDISynth_init sr)\<lparr>fp_max_voices := 2\<rparr>)
               [NoteOn 60 100, NoteOn 64 100, NoteOn 67 100] = Inr s1
          \<and> map fst (fp_voices s1) = [64, 67]"
    by (simp add: note_on_def FourPotMIDISynth_init_def dict_contains_def Let_def)
next
  show "\<exists>t1. MPK_run_calls ((MPKOnlySynth_init sr)\<lparr>mpk_max_voices := 2\<rparr>)
               [NoteOn 60 100, NoteOn 64 100, NoteOn 67 100] = Inr t1
          \<and> map fst (mpk_voices t1) = [64, 67]"
    by (simp add: MPK_note_on_def MPKOnlySynth_init_def dict_contains_def Let_def)
qed

theorem eviction_of_smallest_note_witness:
  "\<not> dict_contains 67 [(60, PolyphonicVoice_init 60 100 44100 (get_envelope_params (FourPotMIDISynth_init 44100))),
                        (64, PolyphonicVoice_init 64 100 44100 (get_envelope_params (FourPotMIDISynth_init 44100)))]
   \<and> (2::int) \<le> int (length [(60::int, PolyphonicVoice_init 60 100 44100 (get_envelope_params (FourPotMIDISynth_init 44100))),
                        (64, PolyphonicVoice_init 64 100 44100 (get_envelope_params (FourPotMIDISynth_init 44100)))])
   \<and> note_on ((FourPotMIDISynth_init 44100)\<lparr>fp_max_voices := 2, fp_voices :=
          [(60, PolyphonicVoice_init 60 100 44100 (get_envelope_params (FourPotMIDISynth_init 44100))),
           (64, PolyphonicVoice_init 64 100 44100 (get_envelope_params (FourPotMIDISynth_init 44100)))]\<rparr>)
        67 100
       = Inr ((FourPotMIDISynth_init 44100)\<lparr>fp_max_voices := 2, fp_voices :=
          [(64, PolyphonicVoice_init 64 100 44100 (get_envelope_params (FourPotMIDISynth_init 44100))),
           (67, PolyphonicVoice_init 67 100 44100 (get_envelope_params (FourPotMIDISynth_init 44100)))]\<rparr>)
   \<and> MPK_note_on ((MPKOnlySynth_init 44100)\<lparr>mpk_max_voices := 2, mpk_voices :=
          [(60, MPKVoice_init 60 100 44100 (get_synth_params (MPKOnlySynth_init 44100))),
           (64, MPKVoice_init 64 100 44100 (get_synth_params (MPKOnlySynth_init 44100)))]\<rparr>)
        67 100
       = Inr ((MPKOnlySynth_init 44100)\<lparr>mpk_max_voices := 2, mpk_voices :=
          [(64, MPKVoice_init 64 100 44100 (get_synth_params (MPKOnlySynth_init 44100))),
           (67, MPKVoice_init 67 100 44100 (get_synth_params (MPKOnlySynth_init 44100)))]\<rparr>)"
  using eviction_of_smallest_note [of 67
      "(FourPotMIDISynth_init 44100)\<lparr>fp_max_voices := 2, fp_voices :=
          [(60, PolyphonicVoice_init 60 100 44100 (get_envelope_params (FourPotMIDISynth_init 44100))),
           (64, PolyphonicVoice_init 64 100 44100 (get_envelope_params (FourPotMIDISynth_init 44100)))]\<rparr>"
      100
      "(MPKOnlySynth_init 44100)\<lparr>mpk_max_voices := 2, mpk_voices :=
          [(60, MPKVoice_init 60 100 44100 (get_synth_params (MPKOnlySynth_init 44100))),
           (64, MPKVoice_init 64 100 44100 (get_synth_params (MPKOnlySynth_init 44100)))]\<rparr>"
      44100]
  by (simp add: dict_contains_def FourPotMIDISynth_init_def MPKOnlySynth_init_def
      get_envelope_params_def get_synth_params_def)

text \<open>
  C10. When \<^verbatim>\<open>note_on\<close> is called for a note that has a voice in a pool of at most
  \<^verbatim>\<open>max_voices\<close> voices, the entry of that note is deleted and a fresh voice appended;
  every other note keeps its voice and the pool keeps its size, so nothing is evicted,
  also when the pool is full.
\<close>

theorem retrigger_replaces_only_its_note:
  "(dict_contains n (fp_voices s) \<and> distinct (map fst (fp_voices s)) \<and>
      int (length (fp_voices s)) \<le> fp_max_voices s \<longrightarrow>
      (\<exists>d. note_on s n vel = Inr (s\<lparr>fp_voices := d\<rparr>)
         \<and> d = AList.delete n (fp_voices s) @
               [(n, PolyphonicVoice_init n vel (fp_sample_rate s) (get_envelope_params s))]
         \<and> map_of d = (map_of (fp_voices s))
               (n \<mapsto> PolyphonicVoice_init n vel (fp_sample_rate s) (get_envelope_params s))
         \<and> length d = length (fp_voices s)))
   \<and> (dict_contains n (mpk_voices t) \<and> distinct (map fst (mpk_voices t)) \<and>
      int (length (mpk_voices t)) \<le> mpk_max_voices t \<longrightarrow>
      (\<exists>d. MPK_note_on t n vel = Inr (t\<lparr>mpk_voices := d\<rparr>)
         \<and> d = AList.delete n (mpk_voices t) @
               [(n, MPKVoice_init n vel (mpk_sample_rate t) (get_synth_params t))]
         \<and> map_of d = (map_of (mpk_voices t))
               (n \<mapsto> MPKVoice_init n vel (mpk_sample_rate t) (get_synth_params t))
         \<and> length d = length (mpk_voices t)))"
proof -
  have *: "map_of (AList.delete n d @ [(n, nv)]) = (map_of d)(n \<mapsto> nv) \<and>
           length (AList.delete n d @ [(n, nv)]) = length d"
    if "dict_contains n d" "distinct (map fst d)" for d :: voice_pool and nv
  proof
    show "map_of (AList.delete n d @ [(n, nv)]) = (map_of d)(n \<mapsto> nv)"
      by (rule ext) (simp add: map_add_def AList.delete_conv' split: option.splits)
    show "length (AList.delete n d @ [(n, nv)]) = length d"
      using length_delete_distinct [of d n] that by (simp add: dict_contains_def)
  qed
  show ?thesis
    using * by (simp add: note_on_pool MPK_note_on_pool pool_note_on_retrigger)
qed

theorem retrigger_replaces_only_its_note_witness:
  "dict_contains 60 [(60, PolyphonicVoice_init 60 100 44100 (get_envelope_params (FourPotMIDISynth_init 44100))),
                     (64, PolyphonicVoice_init 64 100 44100 (get_envelope_params (FourPotMIDISynth_init 44100)))]
   \<and> distinct (map fst [(60::int, PolyphonicVoice_init 60 100 44100 (get_envelope_params (FourPotMIDISynth_init 44100))),
                     (64, PolyphonicVoice_init 64 100 44100 (get_envelope_params (FourPotMIDISynth_init 44100)))])
   \<and> note_on ((FourPotMIDISynth_init 44100)\<lparr>fp_max_voices := 2, fp_voices :=
          [(60, PolyphonicVoice_init 60 100 44100 (get_envelope_params (FourPotMIDISynth_init 44100))),
           (64, PolyphonicVoice_init 64 100 44100 (get_envelope_params (FourPotMIDISynth_init 44100)))]\<rparr>)
        60 90
       = Inr ((FourPotMIDISynth_init 44100)\<lparr>fp_max_voices := 2, fp_voices :=
          [(64, PolyphonicVoice_init 64 100 44100 (get_envelope_params (FourPotMIDISynth_init 44100))),
           (60, PolyphonicVoice_init 60 90 44100 (get_envelope_params (FourPotMIDISynth_init 44100)))]\<rparr>)
   \<and> MPK_note_on ((MPKOnlySynth_init 44100)\<lparr>mpk_max_voices := 2, mpk_voices :=
          [(60, MPKVoice_init 60 100 44100 (get_synth_params (MPKOnlySynth_init 44100))),
           (64, MPKVoice_init 64 100 44100 (get_synth_params (MPKOnlySynth_init 44100)))]\<rparr>)
        60 90
       = Inr ((MPKOnlySynth_init 44100)\<lparr>mpk_max_voices := 2, mpk_voices :=
          [(64, MPKVoice_init 64 100 44100 (get_synth_params (MPKOnlySynth_init 44100))),
           (60, MPKVoice_init 60 90 44100 (get_synth_params (MPKOnlySynth_init 44100)))]\<rparr>)"
  using retrigger_replaces_only_its_note [of 60
      "(FourPotMIDISynth_init 44100)\<lparr>fp_max_voices := 2, fp_voices :=
          [(60, PolyphonicVoice_init 60 100 44100 (get_envelope_params (FourPotMIDISynth_init 44100))),
           (64, PolyphonicVoice_init 64 100 44100 (get_envelope_params (FourPotMIDISynth_init 44100)))]\<rparr>"
      90
      "(MPKOnlySynth_init 44100)\<lparr>mpk_max_voices := 2, mpk_voices :=
          [(60, MPKVoice_init 60 100 44100 (get_synth_params (MPKOnlySynth_init 44100))),
           (64, MPKVoice_init 64 100 44100 (get_synth_params (MPKOnlySynth_init 44100)))]\<rparr>"]
  by (simp add: dict_contains_def FourPotMIDISynth_init_def MPKOnlySynth_init_def
      get_envelope_params_def get_synth_params_def)

section \<open>Faults in the audio callback\<close>

text \<open>
  In this model the \<^verbatim>\<open>try\<close> block raises exactly when the pool holds an unfinished
  voice whose sample rate is 0 (the division in \<^verbatim>\<open>generate\<close>).
\<close>

lemma render_raises_iff:
  "isl (render s f) \<longleftrightarrow>
   (\<exists>p \<in> set (fp_voices s). \<not> is_finished (snd p) \<and> sample_rate (snd p) = 0)"
  using mix_voices_raises_iff [of f "fp_waveform s" "fp_filter_cutoff s" "fp_detune s"
      "fp_voices s" "replicate f 0" "[]"]
  by (auto simp: render_def Let_def split: sum.splits prod.splits)

lemma MPK_render_raises_iff:
  "isl (MPK_render s f) \<longleftrightarrow>
   (\<exists>p \<in> set (mpk_voices s). \<not> MPKVoice_is_finished (snd p) \<and> sample_rate (snd p) = 0)"
  using mix_voices_raises_iff [of f "mpk_waveform s" "mpk_filter_cutoff s" "mpk_detune s"
      "mpk_voices s" "replicate f 0" "[]"]
  by (auto simp: MPK_render_def MPK_mix_voices_eq MPKVoice_is_finished_eq Let_def
      split: sum.splits prod.splits)

lemma render_length:
  "render s f = Inr (outdata, s1) \<Longrightarrow> length outdata = f"
  using mix_voices_length [of "replicate f 0" f "fp_waveform s" "fp_filter_cutoff s" "fp_detune s"
      "fp_voices s" "[]"]
  by (auto simp: render_def Let_def split: sum.splits prod.splits)

lemma MPK_render_length:
  "MPK_render s f = Inr (outdata, s1) \<Longrightarrow> length outdata = f"
  using mix_voices_length [of "replicate f 0" f "mpk_waveform s" "mpk_filter_cutoff s"
      "mpk_detune s" "mpk_voices s" "[]"]
  by (auto simp: MPK_render_def MPK_mix_voices_eq Let_def split: sum.splits prod.splits)

text \<open>
  C3. \<^verbatim>\<open>audio_callback\<close> always returns a block of \<open>frames\<close> stereo frames, never an
  error; when the rendering inside its \<^verbatim>\<open>try\<close> block raises, every frame of the block
  is zero on both channels.
\<close>

theorem audio_callback_contains_faults:
  "(isl (render s f) \<longrightarrow> fst (audio_callback s f) = replicate f (0, 0))
   \<and> length (fst (audio_callback s f)) = f
   \<and> (isl (MPK_render t f) \<longrightarrow> fst (MPK_audio_callback t f) = replicate f (0, 0))
   \<and> length (fst (MPK_audio_callback t f)) = f"
proof (intro conjI impI)
  assume "isl (render s f)"
  then show "fst (audio_callback s f) = replicate f (0, 0)"
    by (auto simp: audio_callback_def isl_def)
next
  show "length (fst (audio_callback s f)) = f"
    using render_length [of s f]
    by (cases "render s f") (auto simp: audio_callback_def)
next
  assume "isl (MPK_render t f)"
  then show "fst (MPK_audio_callback t f) = replicate f (0, 0)"
    by (auto simp: MPK_audio_callback_def isl_def)
next
  show "length (fst (MPK_audio_callback t f)) = f"
    using MPK_render_length [of t f]
    by (cases "MPK_render t f") (auto simp: MPK_audio_callback_def)
qed

theorem audio_callback_contains_faults_witness:
  "isl (render ((FourPotMIDISynth_init 0)
          \<lparr>fp_voices := [(60, PolyphonicVoice_init 60 100 0
                               (get_envelope_params (FourPotMIDISynth_init 0)))]\<rparr>) 4)
   \<and> fst (audio_callback ((FourPotMIDISynth_init 0)
          \<lparr>fp_voices := [(60, PolyphonicVoice_init 60 100 0
                               (get_envelope_params (FourPotMIDISynth_init 0)))]\<rparr>) 4)
       = [(0, 0), (0, 0), (0, 0), (0, 0)]
   \<and> isl (MPK_render ((MPKOnlySynth_init 0)
          \<lparr>mpk_voices := [(60, MPKVoice_init 60 100 0
                               (get_synth_params (MPKOnlySynth_init 0)))]\<rparr>) 4)
   \<and> fst (MPK_audio_callback ((MPKOnlySynth_init 0)
          \<lparr>mpk_voices := [(60, MPKVoice_init 60 100 0
                               (get_synth_params (MPKOnlySynth_init 0)))]\<rparr>) 4)
       = [(0, 0), (0, 0), (0, 0), (0, 0)]"
  using audio_callback_contains_faults [of
      "(FourPotMIDISynth_init 0)
          \<lparr>fp_voices := [(60, PolyphonicVoice_init 60 100 0
                               (get_envelope_params (FourPotMIDISynth_init 0)))]\<rparr>"
      4
      "(MPKOnlySynth_init 0)
          \<lparr>mpk_voices := [(60, MPKVoice_init 60 100 0
                               (get_synth_params (MPKOnlySynth_init 0)))]\<rparr>"]
  by (simp add: render_raises_iff MPK_render_raises_iff is_finished_def MPKVoice_is_finished_def
      PolyphonicVoice_init_def MPKVoice_init_def numeral_eq_Suc)

end
